theory Spec2Isabelle
  imports Complex_Main "HOL-Library.Word"
begin

unbundle bit_operations_syntax

section \<open>Exceptions\<close>

text \<open>
  Every \<^verbatim>\<open>throw\<close> of the sources is a value of \<open>exn\<close>; a function that can throw
  returns \<open>exn + 'a\<close> with \<open>Inl\<close> for the thrown exception.  The constructor is the
  JavaScript class of the exception, the argument its message.  An error thrown by a
  library (Node, the JavaScript engine, the Prisma client, here under the one constructor
  \<open>PrismaClientError\<close>) carries a message in the library's wording.
\<close>

datatype exn =
    Error string
  | RangeError string
  | SyntaxError string
  | TypeError string
  | NotFoundException string
  | BadRequestException string
  | PrismaClientError string

section \<open>Billing SDK: webhook verification (webhook.ts)\<close>

text \<open>
  The SDK compares strings with \<^verbatim>\<open>charCodeAt\<close>, so its strings are kept as what
  JavaScript has: sequences of 16-bit code units.  \<^verbatim>\<open>TextEncoder.encode\<close> and
  \<^verbatim>\<open>Buffer.from(string)\<close> are the UTF-8 encoding of such a sequence (a surrogate pair
  is one four-byte code point, a lone surrogate becomes U+FFFD).
\<close>

type_synonym utf16 = "16 word list"
type_synonym bytes = "8 word list"

fun utf8 :: "utf16 \<Rightarrow> bytes" where
  "utf8 [] = []"
| "utf8 (c # cs) =
    (if c < 0x80 then ucast c # utf8 cs
     else if c < 0x800 then
       [0xC0 OR ucast (drop_bit 6 c), 0x80 OR ucast (c AND 0x3F)] @ utf8 cs
     else if 0xD800 \<le> c \<and> c < 0xDC00 then
       (case cs of
          [] \<Rightarrow> [0xEF, 0xBF, 0xBD]
        | d # ds \<Rightarrow>
            if 0xDC00 \<le> d \<and> d < 0xE000 then
              (let cp = (0x10000 :: 32 word) + push_bit 10 (ucast (c - 0xD800)) + ucast (d - 0xDC00)
               in [0xF0 OR ucast (drop_bit 18 cp), 0x80 OR ucast (drop_bit 12 cp AND 0x3F),
                   0x80 OR ucast (drop_bit 6 cp AND 0x3F), 0x80 OR ucast (cp AND 0x3F)] @ utf8 ds)
            else [0xEF, 0xBF, 0xBD] @ utf8 cs)
     else if 0xDC00 \<le> c \<and> c < 0xE000 then [0xEF, 0xBF, 0xBD] @ utf8 cs
     else [0xE0 OR ucast (drop_bit 12 c), 0x80 OR ucast (drop_bit 6 c AND 0x3F),
           0x80 OR ucast (c AND 0x3F)] @ utf8 cs)"

text \<open>
  \<^verbatim>\<open>bufferToHex\<close>: each byte as \<^verbatim>\<open>b.toString(16).padStart(2, '0')\<close>, joined.
  Node's \<^verbatim>\<open>digest('hex')\<close> prints a MAC the same way.
\<close>

definition hex_digit :: "nat \<Rightarrow> 16 word" where
  "hex_digit n = (if n < 10 then 0x30 + of_nat n else 0x61 + of_nat (n - 10))"

definition toString16 :: "8 word \<Rightarrow> utf16" where
  "toString16 b =
     (if unat b < 16 then [hex_digit (unat b)]
      else [hex_digit (unat b div 16), hex_digit (unat b mod 16)])"

definition padStart :: "nat \<Rightarrow> 16 word \<Rightarrow> utf16 \<Rightarrow> utf16" where
  "padStart n fill s = replicate (n - length s) fill @ s"

definition bufferToHex :: "bytes \<Rightarrow> utf16" where
  "bufferToHex buffer = concat (map (\<lambda>b. padStart 2 0x30 (toString16 b)) buffer)"

text \<open>
  The SDK's own \<^verbatim>\<open>timingSafeEqual(a, b)\<close>: unequal lengths give \<open>False\<close>; otherwise
  the loop ORs the XOR of the code units into a 32-bit accumulator and the strings are
  equal when it stays 0.  \<^verbatim>\<open>charCodeAt\<close> out of range is NaN, which the bitwise
  operators read as 0.
\<close>

definition charCodeAt :: "utf16 \<Rightarrow> nat \<Rightarrow> 32 word" where
  "charCodeAt s i = (if i < length s then ucast (s ! i) else 0)"

function timingSafeEqual_loop :: "utf16 \<Rightarrow> utf16 \<Rightarrow> nat \<Rightarrow> 32 word \<Rightarrow> 32 word" where
  "timingSafeEqual_loop a b i result =
     (if i < length a
      then timingSafeEqual_loop a b (i + 1) (result OR (charCodeAt a i XOR charCodeAt b i))
      else result)"
  by pat_completeness auto
termination
  by (relation "measure (\<lambda>(a, b, i, result). length a - i)") auto

declare timingSafeEqual_loop.simps [simp del]

definition timingSafeEqual :: "utf16 \<Rightarrow> utf16 \<Rightarrow> bool" where
  "timingSafeEqual a b =
     (if length a \<noteq> length b then False
      else timingSafeEqual_loop a b 0 0 = 0)"

text \<open>
  Node's \<^verbatim>\<open>crypto.timingSafeEqual(bufA, bufB)\<close>, used on the fallback path: it throws
  a RangeError when the two buffers differ in byte length, and compares them otherwise.
\<close>

definition crypto_timingSafeEqual :: "bytes \<Rightarrow> bytes \<Rightarrow> exn + bool" where
  "crypto_timingSafeEqual a b =
     (if length a \<noteq> length b
      then Inl (RangeError ''Input buffers must have the same byte length'')
      else Inr (a = b))"

text \<open>
  What the SDK takes from the JavaScript runtime: whether \<^verbatim>\<open>globalThis.crypto?.subtle\<close>
  exists, HMAC-SHA256 itself (key bytes, message bytes, MAC bytes; the same function behind
  Web Crypto and behind Node's \<^verbatim>\<open>createHmac\<close>), and \<^verbatim>\<open>JSON.parse\<close>, which returns a
  payload or throws a SyntaxError (\<open>None\<close>).
\<close>

record 'p runtime =
  subtle :: bool
  HMAC_SHA256 :: "bytes \<Rightarrow> bytes \<Rightarrow> bytes"
  JSON_parse :: "utf16 \<Rightarrow> 'p option"

definition verifyWebhookSignature ::
  "'p runtime \<Rightarrow> utf16 \<Rightarrow> utf16 \<Rightarrow> utf16 \<Rightarrow> exn + bool" where
  "verifyWebhookSignature rt rawBody signature secret =
     (if subtle rt then
        (let mac = HMAC_SHA256 rt (utf8 secret) (utf8 rawBody);
             expected = bufferToHex mac
         in Inr (timingSafeEqual expected signature))
      else
        (let expected = bufferToHex (HMAC_SHA256 rt (utf8 secret) (utf8 rawBody))
         in crypto_timingSafeEqual (utf8 expected) (utf8 signature)))"

text \<open>
  An optional string argument is truthy when it is given and not the empty string:
  \<^verbatim>\<open>if (signature && secret)\<close>.
\<close>

definition truthy :: "utf16 option \<Rightarrow> bool" where
  "truthy a = (case a of None \<Rightarrow> False | Some s \<Rightarrow> s \<noteq> [])"

definition JSON_parse_or_throw :: "'p runtime \<Rightarrow> utf16 \<Rightarrow> exn + 'p" where
  "JSON_parse_or_throw rt rawBody =
     (case JSON_parse rt rawBody of
        None \<Rightarrow> Inl (SyntaxError ''Unexpected token in JSON'')
      | Some p \<Rightarrow> Inr p)"

definition parseWebhookPayload ::
  "'p runtime \<Rightarrow> utf16 \<Rightarrow> utf16 option \<Rightarrow> utf16 option \<Rightarrow> exn + 'p" where
  "parseWebhookPayload rt rawBody signature secret =
     (case (signature, secret) of
        (Some sg, Some sc) \<Rightarrow>
          if sg \<noteq> [] \<and> sc \<noteq> [] then
            (case verifyWebhookSignature rt rawBody sg sc of
               Inl e \<Rightarrow> Inl e
             | Inr valid \<Rightarrow>
                 if \<not> valid then Inl (Error ''Invalid webhook signature'')
                 else JSON_parse_or_throw rt rawBody)
          else JSON_parse_or_throw rt rawBody
      | _ \<Rightarrow> JSON_parse_or_throw rt rawBody)"

section \<open>Billing API: data model\<close>

text \<open>
  The API's strings are compared and concatenated only, so they are \<open>string\<close>.  A
  \<^verbatim>\<open>Date\<close> is its time value, the milliseconds since the epoch.
\<close>

type_synonym Date = int

text \<open>
  Modelled from the spec: the enums of the database package (\<^verbatim>\<open>@db\<close> and the
  Prisma schema are not among the sources).  Section 3 of the spec has three ordered tiers,
  a set of metered features, and ledger rows with a kind and a status; the values are
  named as the service names them: the tiers are the keys of its rank and limit tables,
  the features the keys of its limit table, the kinds and statuses the ones it writes.
\<close>

datatype SubscriptionTier = community | essentials | pro

datatype UsageMetricType =
    esg_calculation
  | monte_carlo_simulation
  | goal_probability
  | scenario_analysis
  | portfolio_rebalance
  | api_request

datatype BillingProvider = conekta | polar | stripe

datatype BillingEventType =
    subscription_created
  | subscription_cancelled
  | payment_succeeded
  | payment_failed

datatype BillingStatus = succeeded | failed

fun tier_name :: "SubscriptionTier \<Rightarrow> string" where
  "tier_name community = ''community''"
| "tier_name essentials = ''essentials''"
| "tier_name pro = ''pro''"


text \<open>
  Values put into metadata objects.  A number is the rational it denotes: every amount is an
  integer of minor units divided by 100, and floating-point rounding is left out.
\<close>

datatype jsval = JUndefined | JString string | JNumber rat

text \<open>
  A template literal is kept as its parts, so that a number interpolated into a log line
  needs no rendering: \<^verbatim>\<open>`amount: ${n / 100}`\<close> is \<open>[S ''amount: '', N (n / 100)]\<close>.
  \<open>I k\<close> is the text of the member \<open>k\<close> of \<^verbatim>\<open>Object.prototype\<close>.
\<close>

datatype part = S string | N rat | I string

datatype level = LOG | WARN | ERROR

text \<open>
  Modelled from the spec: the Subscriber and BillingEvent rows of section 3 (the Prisma
  models are not among the sources), with the fields the service reads and writes, and an
  entry of the audit trail with the fields the service passes to \<^verbatim>\<open>audit.log\<close>.
\<close>

record User =
  user_id :: string
  email :: string
  name :: string
  countryCode :: "string option"
  subscriptionTier :: SubscriptionTier
  subscriptionStartedAt :: "Date option"
  subscriptionExpiresAt :: "Date option"
  stripeCustomerId :: "string option"
  stripeSubscriptionId :: "string option"
  januaCustomerId :: "string option"
  billingProvider :: "BillingProvider option"

record BillingEvent =
  userId :: string
  type :: BillingEventType
  amount :: rat
  currency :: string
  status :: BillingStatus
  stripeEventId :: string
  metadata :: "(string \<times> jsval) list"

record AuditEntry =
  audit_userId :: string
  action :: string
  severity :: string
  audit_metadata :: "(string \<times> jsval) list"

subsection \<open>Property lookup on object literals\<close>

text \<open>
  \<^verbatim>\<open>obj[key]\<close> on an object literal finds the literal's own properties and, for a key
  it does not have, the members every object inherits from \<^verbatim>\<open>Object.prototype\<close>.
  The inherited members are functions (and \<^verbatim>\<open>__proto__\<close>, the prototype itself): they
  are truthy, they are not \<^verbatim>\<open>null\<close> or \<^verbatim>\<open>undefined\<close>, and as numbers they are NaN.
\<close>

datatype 'a member = Own 'a | Inherited string | Absent

definition Object_prototype :: "string list" where
  "Object_prototype =
     [''constructor'', ''__defineGetter__'', ''__defineSetter__'', ''hasOwnProperty'',
      ''__lookupGetter__'', ''__lookupSetter__'', ''isPrototypeOf'', ''propertyIsEnumerable'',
      ''toString'', ''valueOf'', ''__proto__'', ''toLocaleString'']"

definition get_prop :: "(string \<times> 'a) list \<Rightarrow> string \<Rightarrow> 'a member" where
  "get_prop obj key =
     (case map_of obj key of
        Some v \<Rightarrow> Own v
      | None \<Rightarrow> if key \<in> set Object_prototype then Inherited key else Absent)"

text \<open>An optional string is truthy when it is present and not empty.\<close>

definition given :: "string option \<Rightarrow> bool" where
  "given a = (case a of None \<Rightarrow> False | Some x \<Rightarrow> x \<noteq> [])"

text \<open>
  \<^verbatim>\<open>config.get(key, default)\<close>, also \<^verbatim>\<open>n || 0\<close> on an optional number
  (\<open>get_default\<close>), and \<^verbatim>\<open>a || b\<close> on optional strings (\<open>or_else\<close>).
\<close>

definition get_default :: "'a option \<Rightarrow> 'a \<Rightarrow> 'a" where
  "get_default a d = (case a of None \<Rightarrow> d | Some x \<Rightarrow> x)"

definition or_else :: "string option \<Rightarrow> string \<Rightarrow> string" where
  "or_else a d = (case a of None \<Rightarrow> d | Some x \<Rightarrow> if x = [] then d else x)"

text \<open>\<^verbatim>\<open>String.prototype.toUpperCase\<close> on the ASCII letters (currency codes).\<close>

definition toUpperCase :: "string \<Rightarrow> string" where
  "toUpperCase str =
     map (\<lambda>c. case map_of (zip ''abcdefghijklmnopqrstuvwxyz'' ''ABCDEFGHIJKLMNOPQRSTUVWXYZ'') c of
                None \<Rightarrow> c
              | Some C \<Rightarrow> C) str"

fun message :: "exn \<Rightarrow> string" where
  "message (Error m) = m"
| "message (RangeError m) = m"
| "message (SyntaxError m) = m"
| "message (TypeError m) = m"
| "message (NotFoundException m) = m"
| "message (BadRequestException m) = m"
| "message (PrismaClientError m) = m"

subsection \<open>Requests to the payment providers\<close>

record JanuaCustomerRequest =
  jc_email :: string
  jc_name :: string
  jc_country_code :: string
  jc_provider :: BillingProvider
  jc_organization_id :: "string option"
  jc_metadata :: "(string \<times> jsval) list"

record JanuaCheckoutRequest =
  jk_customer_id :: string
  jk_customer_email :: string
  jk_plan_id :: string
  jk_country_code :: string
  jk_provider :: BillingProvider
  jk_organization_id :: "string option"
  jk_success_url :: string
  jk_cancel_url :: string
  jk_metadata :: "(string \<times> jsval) list"

record StripeCustomerParams =
  sc_email :: string
  sc_name :: string
  sc_metadata :: "(string \<times> jsval) list"

record StripeSessionParams =
  ss_customer :: string
  ss_price :: "string option"
  ss_success_url :: string
  ss_cancel_url :: string
  ss_metadata :: "(string \<times> jsval) list"

datatype Outbound =
    JanuaCreateCustomer JanuaCustomerRequest
  | JanuaCreateCheckout JanuaCheckoutRequest
  | JanuaAddRole string "string member"
  | StripeCreateCustomer StripeCustomerParams
  | StripeCreateCheckoutSession StripeSessionParams
  | StripeRetrieveCheckoutSession string

text \<open>
  The answer to a \<^verbatim>\<open>fetch\<close>: the promise rejects, or the response is not ok and has a
  text, or it is ok and its JSON holds the data.
\<close>

datatype 'a http = FetchFailed string | NotOk nat string | Ok 'a

subsection \<open>The store\<close>

text \<open>
  Everything the service can change: the three tables it writes through Prisma, the audit
  trail, the log lines and the requests made to the providers, each in the order written.
\<close>

record Store =
  users :: "User list"
  billingEvents :: "BillingEvent list"
  usageMetrics :: "string \<times> UsageMetricType \<times> Date \<rightharpoonup> nat"
  auditLog :: "AuditEntry list"
  logged :: "(level \<times> part list) list"
  outbound :: "Outbound list"

subsection \<open>Stripe events\<close>

record Price =
  unit_amount :: "int option"
  product :: "string option"

record Subscription =
  sub_id :: string
  sub_customer :: string
  current_period_start :: int
  current_period_end :: int
  sub_currency :: string
  items :: "Price list"
  sub_janua_user_id :: "string option"

record Invoice =
  inv_id :: string
  inv_customer :: string
  amount_paid :: int
  amount_due :: int
  inv_currency :: string
  inv_subscription :: "string option"

record Session =
  cs_id :: string
  cs_customer :: "string option"
  cs_janua_user_id :: "string option"
  cs_plan :: "string option"
  cs_source :: "string option"
  amount_total :: "int option"
  cs_currency :: "string option"

text \<open>
  A \<^verbatim>\<open>Stripe.Event\<close> is a union discriminated by its type string; the object it
  carries is the one that type has.  Each constructor holds the event id first;
  \<open>other_event\<close> holds the id and the type string of an event of any other type.
\<close>

datatype StripeEvent =
    customer_subscription_created string Subscription
  | customer_subscription_updated string Subscription
  | customer_subscription_deleted string Subscription
  | invoice_payment_succeeded string Invoice
  | invoice_payment_failed string Invoice
  | checkout_session_completed string Session
  | other_event string string

fun event_type :: "StripeEvent \<Rightarrow> string" where
  "event_type (customer_subscription_created i x) = ''customer.subscription.created''"
| "event_type (customer_subscription_updated i x) = ''customer.subscription.updated''"
| "event_type (customer_subscription_deleted i x) = ''customer.subscription.deleted''"
| "event_type (invoice_payment_succeeded i x) = ''invoice.payment_succeeded''"
| "event_type (invoice_payment_failed i x) = ''invoice.payment_failed''"
| "event_type (checkout_session_completed i x) = ''checkout.session.completed''"
| "event_type (other_event i t) = t"

fun event_id :: "StripeEvent \<Rightarrow> string" where
  "event_id (customer_subscription_created i x) = i"
| "event_id (customer_subscription_updated i x) = i"
| "event_id (customer_subscription_deleted i x) = i"
| "event_id (invoice_payment_succeeded i x) = i"
| "event_id (invoice_payment_failed i x) = i"
| "event_id (checkout_session_completed i x) = i"
| "event_id (other_event i t) = i"

subsection \<open>Configuration and the world outside\<close>

text \<open>
  The configuration keys the billing module reads (\<open>None\<close>: not set), then what lies
  outside the sources and is taken as given: the process time zone as minutes east of UTC,
  whether the ledger table refuses a second row with the same event id, Stripe's webhook
  construction (signature check and parsing; it reads the clock, since a signature header
  carries the time it was made and is refused once it is too old, so the time of the call
  is its first argument, then the body, the header and the secret), the provider APIs, and
  the URL parser of the runtime (\<open>None\<close>: \<^verbatim>\<open>new URL\<close> throws).
\<close>

record Env =
  STRIPE_WEBHOOK_SECRET :: "string option"
  STRIPE_ESSENTIALS_PRICE_ID :: "string option"
  STRIPE_PREMIUM_PRICE_ID :: "string option"
  STRIPE_FOUNDRY_PRODUCT_ID :: "string option"
  WEB_URL :: "string option"
  NODE_ENV :: "string option"
  JANUA_API_URL :: "string option"
  JANUA_API_KEY :: "string option"
  JANUA_ADMIN_KEY :: "string option"
  JANUA_BILLING_ENABLED :: "bool option"
  timezone :: int
  unique_stripeEventId :: bool
  constructEvent :: "Date \<Rightarrow> string \<Rightarrow> string \<Rightarrow> string \<Rightarrow> exn + StripeEvent"
  stripe_customers_create :: "StripeCustomerParams \<Rightarrow> exn + string"
  stripe_sessions_create :: "StripeSessionParams \<Rightarrow> exn + string \<times> string"
  stripe_sessions_retrieve :: "string \<Rightarrow> exn + string option"
  janua_customers :: "JanuaCustomerRequest \<Rightarrow> string http"
  janua_checkout :: "JanuaCheckoutRequest \<Rightarrow> (string \<times> string) http"
  janua_roles :: "string \<Rightarrow> string member \<Rightarrow> unit http"
  URL_hostname :: "string \<Rightarrow> string option"

section \<open>Billing API: storage and logging primitives\<close>

text \<open>
  Prisma calls act on the tables of the store.  The schema is not part of the sources, so a
  write stores the row the service passes.  Two things a write can refuse are modelled: a
  ledger row whose event id is already present, where the table enforces uniqueness
  (\<open>unique_stripeEventId\<close>), and a tier that is no member of the tier enum.
\<close>

definition logger :: "level \<Rightarrow> part list \<Rightarrow> Store \<Rightarrow> Store" where
  "logger lvl msg s = s\<lparr>logged := logged s @ [(lvl, msg)]\<rparr>"

text \<open>
  Modelled from the spec: the audit service (\<^verbatim>\<open>core/audit/audit.service\<close> is not
  among the sources) records the entry it is given (section 4.3, step 5: "Record an audit
  entry"); the entries are kept in the order of the calls.
\<close>

definition audit_log :: "AuditEntry \<Rightarrow> Store \<Rightarrow> Store" where
  "audit_log entry s = s\<lparr>auditLog := auditLog s @ [entry]\<rparr>"

definition request :: "Outbound \<Rightarrow> Store \<Rightarrow> Store" where
  "request r s = s\<lparr>outbound := outbound s @ [r]\<rparr>"

text \<open>
  \<^verbatim>\<open>findUnique\<close> returns the row with the key, \<^verbatim>\<open>update\<close> changes the row with
  the id; on a table kept as a list both take the first match.
\<close>

definition findUnique_id :: "string \<Rightarrow> Store \<Rightarrow> User option" where
  "findUnique_id i s = find (\<lambda>u. user_id u = i) (users s)"

definition findUnique_stripeCustomerId :: "string \<Rightarrow> Store \<Rightarrow> User option" where
  "findUnique_stripeCustomerId c s = find (\<lambda>u. stripeCustomerId u = Some c) (users s)"

fun update_first :: "('a \<Rightarrow> bool) \<Rightarrow> ('a \<Rightarrow> 'a) \<Rightarrow> 'a list \<Rightarrow> 'a list" where
  "update_first P f [] = []"
| "update_first P f (x # xs) = (if P x then f x # xs else x # update_first P f xs)"

definition user_update :: "string \<Rightarrow> (User \<Rightarrow> User) \<Rightarrow> Store \<Rightarrow> Store" where
  "user_update i f s = s\<lparr>users := update_first (\<lambda>u. user_id u = i) f (users s)\<rparr>"

definition billingEvent_create :: "Env \<Rightarrow> BillingEvent \<Rightarrow> Store \<Rightarrow> exn + Store" where
  "billingEvent_create env row s =
     (if unique_stripeEventId env
         \<and> list_ex (\<lambda>e. stripeEventId e = stripeEventId row) (billingEvents s)
      then Inl (PrismaClientError
        ''Unique constraint failed on the fields: (`stripeEventId`)'')
      else Inr (s\<lparr>billingEvents := billingEvents s @ [row]\<rparr>))"

text \<open>\<^verbatim>\<open>(c.toUpperCase() as any) || 'USD'\<close> and \<^verbatim>\<open>n / 100\<close>.\<close>

definition currency_or_USD :: "string \<Rightarrow> string" where
  "currency_or_USD c = (if toUpperCase c = [] then ''USD'' else toUpperCase c)"

definition cents :: "int \<Rightarrow> rat" where
  "cents n = of_int n / 100"

section \<open>Billing API: the webhook handlers of BillingService\<close>

subsection \<open>dispatchJanuaRoleUpgrade\<close>

text \<open>
  The dispatch is started without being awaited and catches its own failures; its effects
  are placed where it is started.
\<close>

definition dispatchJanuaRoleUpgrade :: "Env \<Rightarrow> string \<Rightarrow> string option \<Rightarrow> Store \<Rightarrow> Store" where
  "dispatchJanuaRoleUpgrade env januaUserId productId s =
     (if \<not> given (JANUA_API_URL env) \<or> \<not> given (JANUA_ADMIN_KEY env) then
        logger WARN [S ''Cannot dispatch Janua role upgrade: missing JANUA_API_URL or JANUA_ADMIN_KEY''] s
      else
        let foundryProductId = get_default (STRIPE_FOUNDRY_PRODUCT_ID env) ''prod_foundry'';
            productRoleMap = [(foundryProductId, ''foundry_tier'')];
            role = (case productId of
                      None \<Rightarrow> Absent
                    | Some p \<Rightarrow> if p = [] then Absent else get_prop productRoleMap p)
        in if role = Absent \<or> role = Own [] then
             logger LOG [S ''No Janua role mapping for product '',
                      S (get_default productId ''unknown''), S '', skipping dispatch''] s
           else
             let s1 = request (JanuaAddRole januaUserId role) s;
                 shown = (case role of Own r \<Rightarrow> S r | Inherited k \<Rightarrow> I k | Absent \<Rightarrow> S [])
             in case janua_roles env januaUserId role of
                  FetchFailed m \<Rightarrow>
                    logger ERROR [S ''Janua role upgrade request error: '', S m] s1
                | NotOk code text \<Rightarrow>
                    logger ERROR [S ''Janua role upgrade failed: '', N (of_nat code), S '' - '', S text] s1
                | Ok u \<Rightarrow>
                    logger LOG [S ''Janua role upgraded for user '', S januaUserId, S '': '', shown] s1)"

subsection \<open>customer.subscription.created\<close>

definition handleSubscriptionCreated ::
  "Env \<Rightarrow> string \<Rightarrow> Subscription \<Rightarrow> Store \<Rightarrow> (exn + unit) \<times> Store" where
  "handleSubscriptionCreated env eid subscription s =
     (let customerId = sub_customer subscription in
      case findUnique_stripeCustomerId customerId s of
        None \<Rightarrow> (Inr (), logger ERROR [S ''User not found for Stripe customer: '', S customerId] s)
      | Some user \<Rightarrow>
          let s1 = user_update (user_id user)
                     (\<lambda>u. u\<lparr>subscriptionTier := pro,
                            subscriptionStartedAt := Some (current_period_start subscription * 1000),
                            subscriptionExpiresAt := Some (current_period_end subscription * 1000),
                            stripeSubscriptionId := Some (sub_id subscription)\<rparr>) s
          in (case items subscription of
               [] \<Rightarrow> (Inl (TypeError ''Cannot read properties of undefined (reading 'price')''), s1)
             | item # rest \<Rightarrow>
                 (case billingEvent_create env
                         \<lparr>userId = user_id user, type = subscription_created,
                          amount = cents (get_default (unit_amount item) 0),
                          currency = currency_or_USD (sub_currency subscription),
                          status = succeeded, stripeEventId = eid,
                          metadata = [(''subscriptionId'', JString (sub_id subscription))]\<rparr> s1 of
                    Inl e \<Rightarrow> (Inl e, s1)
                  | Inr s2 \<Rightarrow>
                      let s3 = audit_log
                                 \<lparr>audit_userId = user_id user, action = ''SUBSCRIPTION_ACTIVATED'',
                                  severity = ''high'',
                                  audit_metadata = [(''tier'', JString ''pro''),
                                    (''subscriptionId'', JString (sub_id subscription))]\<rparr> s2;
                          s4 = (if given (sub_janua_user_id subscription)
                                then dispatchJanuaRoleUpgrade env
                                       (the (sub_janua_user_id subscription)) (product item) s3
                                else s3)
                      in (Inr (), logger LOG [S ''Subscription created for user '', S (user_id user)] s4))))"

subsection \<open>customer.subscription.updated\<close>

definition handleSubscriptionUpdated ::
  "Env \<Rightarrow> string \<Rightarrow> Subscription \<Rightarrow> Store \<Rightarrow> (exn + unit) \<times> Store" where
  "handleSubscriptionUpdated env eid subscription s =
     (let customerId = sub_customer subscription in
      case findUnique_stripeCustomerId customerId s of
        None \<Rightarrow> (Inr (), logger ERROR [S ''User not found for Stripe customer: '', S customerId] s)
      | Some user \<Rightarrow>
          let s1 = user_update (user_id user)
                     (\<lambda>u. u\<lparr>subscriptionExpiresAt := Some (current_period_end subscription * 1000)\<rparr>) s
          in (Inr (), logger LOG [S ''Subscription updated for user '', S (user_id user)] s1))"

subsection \<open>customer.subscription.deleted\<close>

definition handleSubscriptionCancelled ::
  "Env \<Rightarrow> string \<Rightarrow> Subscription \<Rightarrow> Store \<Rightarrow> (exn + unit) \<times> Store" where
  "handleSubscriptionCancelled env eid subscription s =
     (let customerId = sub_customer subscription in
      case findUnique_stripeCustomerId customerId s of
        None \<Rightarrow> (Inr (), logger ERROR [S ''User not found for Stripe customer: '', S customerId] s)
      | Some user \<Rightarrow>
          let s1 = user_update (user_id user)
                     (\<lambda>u. u\<lparr>subscriptionTier := community,
                            subscriptionExpiresAt := None,
                            stripeSubscriptionId := None\<rparr>) s
          in (case billingEvent_create env
                    \<lparr>userId = user_id user, type = subscription_cancelled,
                     amount = 0, currency = ''USD'', status = succeeded, stripeEventId = eid,
                     metadata = [(''subscriptionId'', JString (sub_id subscription))]\<rparr> s1 of
               Inl e \<Rightarrow> (Inl e, s1)
             | Inr s2 \<Rightarrow>
                 let s3 = audit_log
                            \<lparr>audit_userId = user_id user, action = ''SUBSCRIPTION_CANCELLED'',
                             severity = ''medium'',
                             audit_metadata = [(''subscriptionId'', JString (sub_id subscription))]\<rparr> s2
                 in (Inr (), logger LOG [S ''Subscription cancelled for user '', S (user_id user)] s3)))"

subsection \<open>invoice.payment_succeeded and invoice.payment_failed\<close>

definition invoice_metadata :: "Invoice \<Rightarrow> (string \<times> jsval) list" where
  "invoice_metadata invoice =
     [(''invoiceId'', JString (inv_id invoice)),
      (''subscriptionId'',
         (case inv_subscription invoice of None \<Rightarrow> JUndefined | Some x \<Rightarrow> JString x))]"

definition handlePaymentSucceeded ::
  "Env \<Rightarrow> string \<Rightarrow> Invoice \<Rightarrow> Store \<Rightarrow> (exn + unit) \<times> Store" where
  "handlePaymentSucceeded env eid invoice s =
     (let customerId = inv_customer invoice in
      case findUnique_stripeCustomerId customerId s of
        None \<Rightarrow> (Inr (), logger ERROR [S ''User not found for Stripe customer: '', S customerId] s)
      | Some user \<Rightarrow>
          (case billingEvent_create env
                  \<lparr>userId = user_id user, type = payment_succeeded,
                   amount = cents (amount_paid invoice),
                   currency = currency_or_USD (inv_currency invoice),
                   status = succeeded, stripeEventId = eid,
                   metadata = invoice_metadata invoice\<rparr> s of
             Inl e \<Rightarrow> (Inl e, s)
           | Inr s1 \<Rightarrow>
               (Inr (), logger LOG [S ''Payment succeeded for user '', S (user_id user),
                                 S '', amount: '', N (cents (amount_paid invoice))] s1)))"

definition handlePaymentFailed ::
  "Env \<Rightarrow> string \<Rightarrow> Invoice \<Rightarrow> Store \<Rightarrow> (exn + unit) \<times> Store" where
  "handlePaymentFailed env eid invoice s =
     (let customerId = inv_customer invoice in
      case findUnique_stripeCustomerId customerId s of
        None \<Rightarrow> (Inr (), logger ERROR [S ''User not found for Stripe customer: '', S customerId] s)
      | Some user \<Rightarrow>
          (case billingEvent_create env
                  \<lparr>userId = user_id user, type = payment_failed,
                   amount = cents (amount_due invoice),
                   currency = currency_or_USD (inv_currency invoice),
                   status = failed, stripeEventId = eid,
                   metadata = invoice_metadata invoice\<rparr> s of
             Inl e \<Rightarrow> (Inl e, s)
           | Inr s1 \<Rightarrow>
               let s2 = audit_log
                          \<lparr>audit_userId = user_id user, action = ''PAYMENT_FAILED'',
                           severity = ''high'',
                           audit_metadata = [(''amount'', JNumber (cents (amount_due invoice))),
                             (''invoiceId'', JString (inv_id invoice))]\<rparr> s1
               in (Inr (), logger WARN [S ''Payment failed for user '', S (user_id user),
                                     S '', amount: '', N (cents (amount_due invoice))] s2)))"

subsection \<open>checkout.session.completed\<close>

definition PLAN_TIER_MAP :: "(string \<times> string) list" where
  "PLAN_TIER_MAP =
     [(''essentials'', ''essentials''),
      (''essentials_yearly'', ''essentials''),
      (''pro'', ''pro''),
      (''pro_yearly'', ''pro'')]"

text \<open>\<^verbatim>\<open>(plan && this.PLAN_TIER_MAP[plan]) || 'pro'\<close>\<close>

definition checkout_tier :: "string option \<Rightarrow> string member" where
  "checkout_tier plan =
     (if given plan then
        (case get_prop PLAN_TIER_MAP (the plan) of
           Absent \<Rightarrow> Own ''pro''
         | Own t \<Rightarrow> if t = [] then Own ''pro'' else Own t
         | Inherited k \<Rightarrow> Inherited k)
      else Own ''pro'')"

text \<open>The members of the tier enum, by name; anything else is not a SubscriptionTier.\<close>

definition as_SubscriptionTier :: "string member \<Rightarrow> SubscriptionTier option" where
  "as_SubscriptionTier v =
     (case v of
        Own t \<Rightarrow>
          if t = ''community'' then Some community
          else if t = ''essentials'' then Some essentials
          else if t = ''pro'' then Some pro
          else None
      | _ \<Rightarrow> None)"

definition handleCheckoutCompleted ::
  "Env \<Rightarrow> Date \<Rightarrow> string \<Rightarrow> Session \<Rightarrow> Store \<Rightarrow> (exn + unit) \<times> Store" where
  "handleCheckoutCompleted env now eid session s =
     (let januaUserId = cs_janua_user_id session;
          plan = cs_plan session
      in if \<not> given januaUserId then
           (Inr (), logger LOG [S ''checkout.session.completed without janua_user_id metadata, skipping''] s)
         else (case findUnique_id (the januaUserId) s of
           None \<Rightarrow>
             (Inr (), logger ERROR [S ''User not found for janua_user_id: '', S (the januaUserId)] s)
         | Some user \<Rightarrow>
             (let tier = checkout_tier plan in
             (case as_SubscriptionTier tier of
               None \<Rightarrow>
                 (Inl (PrismaClientError ''Invalid value for argument `subscriptionTier`''), s)
             | Some t \<Rightarrow>
                 (let s1 = user_update (user_id user)
                            (\<lambda>u. u\<lparr>subscriptionTier := t,
                                   subscriptionStartedAt := Some now,
                                   stripeCustomerId :=
                                     (if given (cs_customer session) then cs_customer session
                                      else stripeCustomerId user)\<rparr>) s
                 in (case billingEvent_create env
                           \<lparr>userId = user_id user, type = subscription_created,
                            amount = cents (get_default (amount_total session) 0),
                            currency = (case cs_currency session of
                                          None \<Rightarrow> ''USD''
                                        | Some c \<Rightarrow> currency_or_USD c),
                            status = succeeded, stripeEventId = eid,
                            metadata =
                              [(''plan'', (case plan of None \<Rightarrow> JUndefined | Some p \<Rightarrow> JString p)),
                               (''source'', (case cs_source session of
                                               None \<Rightarrow> JUndefined | Some x \<Rightarrow> JString x))]\<rparr> s1 of
                      Inl e \<Rightarrow> (Inl e, s1)
                    | Inr s2 \<Rightarrow>
                        let s3 = request (StripeRetrieveCheckoutSession (cs_id session)) s2;
                            (productId, s4) =
                              (case stripe_sessions_retrieve env (cs_id session) of
                                 Inl err \<Rightarrow>
                                   (None, logger WARN
                                      [S ''Failed to retrieve checkout session line_items: '',
                                       S (message err)] s3)
                               | Inr p \<Rightarrow> (p, s3));
                            s5 = dispatchJanuaRoleUpgrade env (the januaUserId) productId s4
                        in (Inr (), logger LOG [S ''Checkout completed for user '', S (user_id user),
                                             S '', tier: '', S (tier_name t)] s5)))))))"

section \<open>Billing API: the Janua webhook handlers of BillingService\<close>

subsection \<open>subscription.cancelled\<close>

text \<open>
  The fields of a Janua webhook payload that the cancellation handler reads: the event id,
  and of \<^verbatim>\<open>payload.data\<close> the customer id, the provider and the currency.
\<close>

record JanuaPayload =
  jp_id :: string
  jp_customer_id :: string
  jp_provider :: "string option"
  jp_currency :: "string option"

definition findFirst_januaCustomerId :: "string \<Rightarrow> Store \<Rightarrow> User option" where
  "findFirst_januaCustomerId c s = find (\<lambda>u. januaCustomerId u = Some c) (users s)"

definition handleJanuaSubscriptionCancelled ::
  "Env \<Rightarrow> Date \<Rightarrow> JanuaPayload \<Rightarrow> Store \<Rightarrow> (exn + unit) \<times> Store" where
  "handleJanuaSubscriptionCancelled env now payload s =
     (let customer_id = jp_customer_id payload in
      case findFirst_januaCustomerId customer_id s of
        None \<Rightarrow> (Inr (), logger WARN [S ''User not found for Janua customer: '', S customer_id] s)
      | Some user \<Rightarrow>
          let s1 = user_update (user_id user)
                     (\<lambda>u. u\<lparr>subscriptionTier := community,
                            subscriptionExpiresAt := Some now\<rparr>) s
          in (case billingEvent_create env
                    \<lparr>userId = user_id user, type = subscription_cancelled,
                     amount = 0, currency = or_else (jp_currency payload) ''USD'',
                     status = succeeded, stripeEventId = jp_id payload,
                     metadata = [(''provider'', (case jp_provider payload of
                                                  None \<Rightarrow> JUndefined
                                                | Some x \<Rightarrow> JString x))]\<rparr> s1 of
               Inl e \<Rightarrow> (Inl e, s1)
             | Inr s2 \<Rightarrow>
                 (Inr (), logger LOG [S ''Janua subscription cancelled for user '',
                                   S (user_id user)] s2)))"

section \<open>Billing API: the Stripe webhook endpoint of BillingController\<close>

record WebhookResponse =
  received :: bool
  error :: "string option"

definition dispatch_event ::
  "Env \<Rightarrow> Date \<Rightarrow> StripeEvent \<Rightarrow> Store \<Rightarrow> (exn + unit) \<times> Store" where
  "dispatch_event env now event s =
     (case event of
        customer_subscription_created i x \<Rightarrow> handleSubscriptionCreated env i x s
      | customer_subscription_updated i x \<Rightarrow> handleSubscriptionUpdated env i x s
      | customer_subscription_deleted i x \<Rightarrow> handleSubscriptionCancelled env i x s
      | invoice_payment_succeeded i x \<Rightarrow> handlePaymentSucceeded env i x s
      | invoice_payment_failed i x \<Rightarrow> handlePaymentFailed env i x s
      | checkout_session_completed i x \<Rightarrow> handleCheckoutCompleted env now i x s
      | other_event i t \<Rightarrow> (Inr (), logger LOG [S ''Unhandled event type: '', S t] s))"

definition handleWebhook ::
  "Env \<Rightarrow> Date \<Rightarrow> string \<Rightarrow> string \<Rightarrow> Store \<Rightarrow> WebhookResponse \<times> Store" where
  "handleWebhook env now rawBody signature s =
     (if \<not> given (STRIPE_WEBHOOK_SECRET env) then
        (\<lparr>received = False, error = Some ''Webhook secret not configured''\<rparr>,
         logger ERROR [S ''STRIPE_WEBHOOK_SECRET not configured''] s)
      else
        (case constructEvent env now rawBody signature (the (STRIPE_WEBHOOK_SECRET env)) of
          Inl err \<Rightarrow>
            (\<lparr>received = False, error = Some ''Invalid signature''\<rparr>,
             logger ERROR [S ''Webhook signature verification failed: '', S (message err)]
               (logger ERROR [S ''Webhook signature verification failed: '', S (message err)] s))
        | Inr event \<Rightarrow>
            let s1 = logger LOG [S ''Received Stripe webhook: '', S (event_type event)] s
            in (case dispatch_event env now event s1 of
                 (Inl err, s2) \<Rightarrow>
                   (\<lparr>received = False, error = Some (message err)\<rparr>,
                    logger ERROR [S ''Error processing webhook: '', S (message err)] s2)
               | (Inr u, s2) \<Rightarrow> (\<lparr>received = True, error = None\<rparr>, s2))))"

section \<open>Billing API: usage metering of BillingService\<close>

datatype Limit = Cap nat | Infinity

fun usageLimits :: "SubscriptionTier \<Rightarrow> UsageMetricType \<Rightarrow> Limit" where
  "usageLimits community esg_calculation = Cap 5"
| "usageLimits community monte_carlo_simulation = Cap 2"
| "usageLimits community goal_probability = Cap 0"
| "usageLimits community scenario_analysis = Cap 0"
| "usageLimits community portfolio_rebalance = Cap 0"
| "usageLimits community api_request = Cap 500"
| "usageLimits essentials esg_calculation = Cap 20"
| "usageLimits essentials monte_carlo_simulation = Cap 10"
| "usageLimits essentials goal_probability = Cap 5"
| "usageLimits essentials scenario_analysis = Cap 3"
| "usageLimits essentials portfolio_rebalance = Cap 0"
| "usageLimits essentials api_request = Cap 5000"
| "usageLimits pro m = Infinity"

text \<open>
  \<^verbatim>\<open>const today = new Date(); today.setHours(0, 0, 0, 0)\<close>: \<^verbatim>\<open>setHours\<close> works in
  the local time of the process, so \<open>today\<close> is the instant of the last local midnight.
  The local clock is the UTC clock moved by the zone's offset (taken as constant).
\<close>

definition setHours_0 :: "int \<Rightarrow> Date \<Rightarrow> Date" where
  "setHours_0 tz now = now - (now + tz * 60000) mod 86400000"

text \<open>The UTC calendar day of an instant, as the number of days since the epoch.\<close>

definition utc_day :: "Date \<Rightarrow> int" where
  "utc_day now = now div 86400000"

definition recordUsage :: "Env \<Rightarrow> Date \<Rightarrow> string \<Rightarrow> UsageMetricType \<Rightarrow> Store \<Rightarrow> Store" where
  "recordUsage env now userId' metricType s =
     (let today = setHours_0 (timezone env) now;
          key = (userId', metricType, today)
      in s\<lparr>usageMetrics := (usageMetrics s)
             (key \<mapsto> (case usageMetrics s key of None \<Rightarrow> 1 | Some c \<Rightarrow> c + 1))\<rparr>)"

text \<open>The count read for a key: \<^verbatim>\<open>usage?.count || 0\<close>.\<close>

definition counted :: "Store \<Rightarrow> string \<times> UsageMetricType \<times> Date \<Rightarrow> nat" where
  "counted s key = (case usageMetrics s key of None \<Rightarrow> 0 | Some c \<Rightarrow> c)"

definition checkUsageLimit :: "Env \<Rightarrow> Date \<Rightarrow> string \<Rightarrow> UsageMetricType \<Rightarrow> Store \<Rightarrow> bool" where
  "checkUsageLimit env now userId' metricType s =
     (case findUnique_id userId' s of
        None \<Rightarrow> False
      | Some user \<Rightarrow>
          if subscriptionTier user = pro then True
          else
            let limit = usageLimits (subscriptionTier user) metricType
            in if limit = Infinity then True
               else if limit = Cap 0 then False
               else
                 let today = setHours_0 (timezone env) now;
                     currentCount = counted s (userId', metricType, today)
                 in (case limit of Cap n \<Rightarrow> currentCount < n | Infinity \<Rightarrow> True))"

text \<open>Sequential \<^verbatim>\<open>recordUsage\<close> calls, one at each instant of the list, in order.\<close>

fun recordUsage_at :: "Env \<Rightarrow> Date list \<Rightarrow> string \<Rightarrow> UsageMetricType \<Rightarrow> Store \<Rightarrow> Store" where
  "recordUsage_at env [] userId' metricType s = s"
| "recordUsage_at env (t # ts) userId' metricType s =
     recordUsage_at env ts userId' metricType (recordUsage env t userId' metricType s)"

section \<open>Billing API: JanuaBillingService and StripeService\<close>








section \<open>Billing API: upgrade and checkout of BillingService\<close>

record UpgradeOptions =
  orgId :: "string option"
  plan :: "string option"
  successUrl :: "string option"
  cancelUrl :: "string option"
  opt_countryCode :: "string option"













section \<open>Billing API: the public checkout endpoint of BillingController\<close>








section \<open>Billing API: a handler that does not read the ledger\<close>

text \<open>
  A predicate for the proofs about redelivery, not a part of the program.  A handler \<open>H\<close>
  of the event \<open>eid\<close> ignores the ledger when, run on any store, it treats the
  users as it does on the same store with an empty ledger, inserts at most one row, which
  has the event id, and returns normally once the row is inserted; and when the ledger
  reaches it through the insert alone: either the insert is refused (the table enforces
  unique event ids, the id is present, and the handler reaches its insert), and then the
  handler fails with the storage error and has written no ledger row, no audit entry and
  no request; or the run is the run on the empty ledger, with the row appended to the
  ledger found.
\<close>

definition ignores_ledger ::
  "Env \<Rightarrow> string \<Rightarrow> (Store \<Rightarrow> (exn + unit) \<times> Store) \<Rightarrow> bool" where
  "ignores_ledger env eid H = (\<forall>s.
     users (snd (H s)) = users (snd (H (s\<lparr>billingEvents := []\<rparr>)))
     \<and> map stripeEventId (billingEvents (snd (H (s\<lparr>billingEvents := []\<rparr>))))
         = (if billingEvents (snd (H (s\<lparr>billingEvents := []\<rparr>))) = [] then [] else [eid])
     \<and> (billingEvents (snd (H (s\<lparr>billingEvents := []\<rparr>))) \<noteq> []
          \<longrightarrow> fst (H (s\<lparr>billingEvents := []\<rparr>)) = Inr ())
     \<and> (if unique_stripeEventId env \<and> list_ex (\<lambda>e. stripeEventId e = eid) (billingEvents s)
            \<and> billingEvents (snd (H (s\<lparr>billingEvents := []\<rparr>))) \<noteq> []
         then (\<exists>m. fst (H s) = Inl (PrismaClientError m))
            \<and> billingEvents (snd (H s)) = billingEvents s
            \<and> auditLog (snd (H s)) = auditLog s
            \<and> outbound (snd (H s)) = outbound s
         else fst (H s) = fst (H (s\<lparr>billingEvents := []\<rparr>))
            \<and> snd (H s) = (snd (H (s\<lparr>billingEvents := []\<rparr>)))
                 \<lparr>billingEvents := billingEvents s
                     @ billingEvents (snd (H (s\<lparr>billingEvents := []\<rparr>)))\<rparr>))"

section \<open>Concrete inputs\<close>

text \<open>
  A stand-in for the runtime's URL parser on the plain shape
  \<^verbatim>\<open>http(s)://host[:port][/path][?query][#fragment]\<close> with a lower-case host and no
  user information; every other string is refused.  It is used where a theorem is
  evaluated at a concrete URL; the theorems themselves hold for any parser.
\<close>

definition plain_hostname :: "string \<Rightarrow> string option" where
  "plain_hostname url =
     (let rest = (if take 8 url = ''https://'' then Some (drop 8 url)
                  else if take 7 url = ''http://'' then Some (drop 7 url)
                  else None)
      in case rest of
           None \<Rightarrow> None
         | Some r \<Rightarrow>
             let host = takeWhile (\<lambda>c. c \<notin> set ''/?#:'') r
             in if host = [] then None else Some host)"

text \<open>
  A stand-in for \<^verbatim>\<open>stripe.webhooks.constructEvent\<close>, used where a theorem is
  evaluated at a concrete delivery; the theorems themselves hold for any library.  It knows
  three signature headers, made at 0, 120 and 240 seconds, and the events of the bodies it
  is given.  Like the library it refuses a header it cannot match to the body, and a header
  made more than 300 seconds before the time of the call.
\<close>

definition signed_headers :: "(string \<times> int) list" where
  "signed_headers =
     [(''t=0,v1=valid_signature'', 0),
      (''t=120,v1=valid_signature'', 120),
      (''t=240,v1=valid_signature'', 240)]"

definition stripe_webhooks ::
  "(string \<times> StripeEvent) list \<Rightarrow> Date \<Rightarrow> string \<Rightarrow> string \<Rightarrow> string
   \<Rightarrow> exn + StripeEvent" where
  "stripe_webhooks bodies now body header secret =
     (case map_of signed_headers header of
        None \<Rightarrow> Inl (Error ''No signatures found matching the expected signature for payload'')
      | Some t \<Rightarrow>
          (case map_of bodies body of
             None \<Rightarrow>
               Inl (Error ''No signatures found matching the expected signature for payload'')
           | Some event \<Rightarrow>
               if now div 1000 - t > 300 then Inl (Error ''Timestamp outside the tolerance zone'')
               else Inr event))"

definition env0 :: Env where
  "env0 =
     \<lparr>STRIPE_WEBHOOK_SECRET = Some ''whsec_test_secret'',
      STRIPE_ESSENTIALS_PRICE_ID = Some ''price_essentials'',
      STRIPE_PREMIUM_PRICE_ID = Some ''price_premium'',
      STRIPE_FOUNDRY_PRODUCT_ID = None,
      WEB_URL = None,
      NODE_ENV = Some ''production'',
      JANUA_API_URL = None,
      JANUA_API_KEY = None,
      JANUA_ADMIN_KEY = None,
      JANUA_BILLING_ENABLED = None,
      timezone = 0,
      unique_stripeEventId = True,
      constructEvent = stripe_webhooks [],
      stripe_customers_create = (\<lambda>p. Inr ''cus_new123''),
      stripe_sessions_create = (\<lambda>p.
        Inr (''cs_test123'', ''https://checkout.stripe.com/pay/cs_test123'')),
      stripe_sessions_retrieve = (\<lambda>i. Inr None),
      janua_customers = (\<lambda>r. Ok ''cus_janua123''),
      janua_checkout = (\<lambda>r. Ok (''https://checkout.janua.dev/s/abc'', ''sess_abc'')),
      janua_roles = (\<lambda>u r. Ok ()),
      URL_hostname = plain_hostname\<rparr>"

definition user0 :: User where
  "user0 =
     \<lparr>user_id = ''user-123'', email = ''test@example.com'', name = ''Test User'',
      countryCode = None, subscriptionTier = community,
      subscriptionStartedAt = None, subscriptionExpiresAt = None,
      stripeCustomerId = Some ''cus_test123'', stripeSubscriptionId = None,
      januaCustomerId = None, billingProvider = None\<rparr>"

definition store0 :: Store where
  "store0 =
     \<lparr>users = [user0], billingEvents = [], usageMetrics = Map.empty,
      auditLog = [], logged = [], outbound = []\<rparr>"

definition subscription0 :: Subscription where
  "subscription0 =
     \<lparr>sub_id = ''sub_test123'', sub_customer = ''cus_test123'',
      current_period_start = 1700000000, current_period_end = 1702592000,
      sub_currency = ''usd'',
      items = [\<lparr>unit_amount = Some 1199, product = Some ''prod_pro''\<rparr>],
      sub_janua_user_id = None\<rparr>"

definition invoice0 :: Invoice where
  "invoice0 =
     \<lparr>inv_id = ''in_test123'', inv_customer = ''cus_test123'',
      amount_paid = 0, amount_due = 1199, inv_currency = ''usd'',
      inv_subscription = Some ''sub_test123''\<rparr>"

definition session0 :: Session where
  "session0 =
     \<lparr>cs_id = ''cs_test123'', cs_customer = Some ''cus_test123'',
      cs_janua_user_id = Some ''user-123'', cs_plan = Some ''essentials'',
      cs_source = Some ''external'', amount_total = Some 499, cs_currency = Some ''usd''\<rparr>"

text \<open>
  The configuration \<open>env0\<close> with a Stripe library that knows two bodies: the
  subscription-created event \<^verbatim>\<open>evt_test123\<close> and the deletion
  \<^verbatim>\<open>evt_test456\<close> of the same subscription.
\<close>

definition env1 :: Env where
  "env1 = env0\<lparr>constructEvent := stripe_webhooks
             [(''{id: evt_test123}'', customer_subscription_created ''evt_test123'' subscription0),
              (''{id: evt_test456}'', customer_subscription_deleted ''evt_test456'' subscription0)]\<rparr>"

text \<open>A subscriber billed through Janua, on the top tier, and a Janua cancellation.\<close>

definition user1 :: User where
  "user1 =
     \<lparr>user_id = ''user-456'', email = ''janua@example.com'', name = ''Janua User'',
      countryCode = Some ''MX'', subscriptionTier = pro,
      subscriptionStartedAt = Some 1700000000000, subscriptionExpiresAt = Some 1702592000000,
      stripeCustomerId = None, stripeSubscriptionId = None,
      januaCustomerId = Some ''cus_janua123'', billingProvider = Some conekta\<rparr>"

definition payload0 :: JanuaPayload where
  "payload0 =
     \<lparr>jp_id = ''evt_janua123'', jp_customer_id = ''cus_janua123'',
      jp_provider = Some ''conekta'', jp_currency = None\<rparr>"
section \<open>Billing SDK: properties\<close>

subsection \<open>The constant-time comparison decides equality\<close>

lemma ucast_16_32_inj: "(ucast (x :: 16 word) :: 32 word) = ucast y \<longleftrightarrow> x = y"
proof
  assume "(ucast x :: 32 word) = ucast y"
  then have "(ucast (ucast x :: 32 word) :: 16 word) = ucast (ucast y :: 32 word)" by simp
  then show "x = y" by (simp add: ucast_up_ucast_id is_up)
qed simp

lemma word_xor_eq_0_iff: "(x :: 'a::len word) XOR y = 0 \<longleftrightarrow> x = y"
  by (metis bit.xor_self xor.assoc xor.right_neutral xor.left_neutral)

lemma charCodeAt_xor_0:
  "i < length a \<Longrightarrow> i < length b \<Longrightarrow>
   (charCodeAt a i XOR charCodeAt b i = 0) = (a ! i = b ! i)"
  by (simp add: charCodeAt_def word_xor_eq_0_iff ucast_16_32_inj)

lemma timingSafeEqual_loop_zero:
  "length a = length b \<Longrightarrow>
   (timingSafeEqual_loop a b i result = 0) =
   (result = 0 \<and> (\<forall>j. i \<le> j \<and> j < length a \<longrightarrow> a ! j = b ! j))"
proof (induction a b i result rule: timingSafeEqual_loop.induct)
  case (1 a b i result)
  show ?case
  proof (cases "i < length a")
    case True
    have split: "(\<forall>j. i \<le> j \<and> j < length a \<longrightarrow> a ! j = b ! j) =
      (a ! i = b ! i \<and> (\<forall>j. i + 1 \<le> j \<and> j < length a \<longrightarrow> a ! j = b ! j))"
    proof (intro iffI conjI allI impI)
      fix j
      assume h: "a ! i = b ! i \<and> (\<forall>j. i + 1 \<le> j \<and> j < length a \<longrightarrow> a ! j = b ! j)"
        and j: "i \<le> j \<and> j < length a"
      show "a ! j = b ! j"
      proof (cases "j = i")
        case True
        with h show ?thesis by simp
      next
        case False
        with j have "i + 1 \<le> j" by simp
        with h j show ?thesis by blast
      qed
    qed (use True in auto)
    from True "1.prems" have "i < length b" by simp
    with True "1.IH" [OF True "1.prems"] show ?thesis
      by (subst timingSafeEqual_loop.simps) (auto simp: or_eq_0_iff charCodeAt_xor_0 split)
  next
    case False
    then show ?thesis
      by (subst timingSafeEqual_loop.simps) auto
  qed
qed

lemma timingSafeEqual_iff: "timingSafeEqual a b \<longleftrightarrow> a = b"
  by (auto simp: timingSafeEqual_def timingSafeEqual_loop_zero list_eq_iff_nth_eq)

subsection \<open>A hex digest is two ASCII characters per byte\<close>

lemma hex_digit_ascii: "n < 16 \<Longrightarrow> hex_digit n < 0x80"
  by (simp add: hex_digit_def word_less_nat_alt unat_word_ariths unat_of_nat)

lemma unat_byte_div_16: "unat (b :: 8 word) div 16 < 16"
proof -
  have "unat b < 256" using unsigned_less [of b] by simp
  then show ?thesis by simp
qed

lemma padStart_toString16:
  "length (padStart 2 0x30 (toString16 b)) = 2 \<and>
   (\<forall>c \<in> set (padStart 2 0x30 (toString16 b)). c < 0x80)"
  by (auto simp: padStart_def toString16_def hex_digit_ascii unat_byte_div_16)

lemma utf8_ascii: "\<forall>c \<in> set s. c < 0x80 \<Longrightarrow> length (utf8 s) = length s"
  by (induction s) auto

lemma bufferToHex_ascii: "\<forall>c \<in> set (bufferToHex buffer). c < 0x80"
  using padStart_toString16 by (auto simp: bufferToHex_def)

lemma length_bufferToHex: "length (bufferToHex buffer) = 2 * length buffer"
proof (induction buffer)
  case Nil
  then show ?case by (simp add: bufferToHex_def)
next
  case (Cons b buffer)
  then show ?case using padStart_toString16 [of b] by (simp add: bufferToHex_def)
qed

lemma length_utf8_bufferToHex: "length (utf8 (bufferToHex buffer)) = 2 * length buffer"
  by (simp add: utf8_ascii bufferToHex_ascii length_bufferToHex)

subsection \<open>parseWebhookPayload where Web Crypto is present\<close>

lemma verifyWebhookSignature_subtle:
  "subtle rt \<Longrightarrow>
   verifyWebhookSignature rt rawBody signature secret =
     Inr (bufferToHex (HMAC_SHA256 rt (utf8 secret) (utf8 rawBody)) = signature)"
  by (simp add: verifyWebhookSignature_def timingSafeEqual_iff)

lemma parseWebhookPayload_skips:
  "\<not> (truthy signature \<and> truthy secret) \<Longrightarrow>
   parseWebhookPayload rt rawBody signature secret = JSON_parse_or_throw rt rawBody"
  by (auto simp: parseWebhookPayload_def truthy_def split: option.splits)

lemma JSON_parse_or_throw_not_Error: "JSON_parse_or_throw rt rawBody \<noteq> Inl (Error m)"
  by (simp add: JSON_parse_or_throw_def split: option.splits)

lemma parseWebhookPayload_subtle_iff:
  "subtle rt \<Longrightarrow>
   (parseWebhookPayload rt rawBody signature secret = Inl (Error ''Invalid webhook signature''))
   = (truthy signature \<and> truthy secret \<and>
      bufferToHex (HMAC_SHA256 rt (utf8 (the secret)) (utf8 rawBody)) \<noteq> the signature)"
  by (auto simp: parseWebhookPayload_def truthy_def verifyWebhookSignature_subtle
      JSON_parse_or_throw_not_Error split: option.splits)

section \<open>Billing API: helper lemmas\<close>

subsection \<open>Rows found and rows updated\<close>

lemma find_update_first_same:
  assumes "\<And>x. key (f x) = key x"
  shows "find (\<lambda>u. key u = i) (update_first (\<lambda>u. key u = i) f us)
       = map_option f (find (\<lambda>u. key u = i) us)"
  using assms by (induction us) auto

lemma find_distinct_key:
  assumes "distinct (map key us)" and "u \<in> set us"
  shows "find (\<lambda>x. key x = key u) us = Some u"
  using assms by (induction us) (auto simp: rev_image_eqI)

lemma find_Some_set: "find P us = Some u \<Longrightarrow> u \<in> set us \<and> P u"
  by (induction us) (auto split: if_splits)

lemma findUnique_id_of_found:
  assumes "distinct (map user_id (users s))"
    and "findUnique_stripeCustomerId c s = Some user"
  shows "findUnique_id (user_id user) s = Some user"
  using assms find_Some_set [of _ "users s" user]
  by (simp add: findUnique_id_def findUnique_stripeCustomerId_def find_distinct_key)

lemma findUnique_id_user_update:
  assumes "\<And>x. user_id (f x) = user_id x"
  shows "findUnique_id i (user_update i f s) = map_option f (findUnique_id i s)"
  using assms by (simp add: findUnique_id_def user_update_def find_update_first_same)

lemma billingEvent_create_accepts:
  "\<not> (unique_stripeEventId env \<and> list_ex (\<lambda>e. stripeEventId e = stripeEventId row) (billingEvents s))
   \<Longrightarrow> billingEvent_create env row s = Inr (s\<lparr>billingEvents := billingEvents s @ [row]\<rparr>)"
  by (auto simp: billingEvent_create_def)

lemma logger_twice:
  "logger l2 m2 (logger l1 m1 s) = s\<lparr>logged := logged s @ [(l1, m1), (l2, m2)]\<rparr>"
  by (simp add: logger_def)

text \<open>The definitions unfolded when a handler is evaluated at a concrete input.\<close>

lemmas store_ops =
  logger_def audit_log_def request_def findUnique_id_def findUnique_stripeCustomerId_def
  user_update_def billingEvent_create_def currency_or_USD_def cents_def toUpperCase_def
  given_def get_default_def or_else_def

lemmas fixtures = env0_def store0_def user0_def subscription0_def invoice0_def session0_def
  stripe_webhooks_def signed_headers_def

subsection \<open>What the primitives leave alone\<close>

lemma users_logger [simp]: "users (logger l m s) = users s"
  and billingEvents_logger [simp]: "billingEvents (logger l m s) = billingEvents s"
  by (simp_all add: logger_def)

lemma users_audit_log [simp]: "users (audit_log a s) = users s"
  and billingEvents_audit_log [simp]: "billingEvents (audit_log a s) = billingEvents s"
  by (simp_all add: audit_log_def)

lemma users_request [simp]: "users (request q s) = users s"
  and billingEvents_request [simp]: "billingEvents (request q s) = billingEvents s"
  by (simp_all add: request_def)

lemma users_dispatchJanuaRoleUpgrade [simp]:
  "users (dispatchJanuaRoleUpgrade env j p s) = users s"
  by (simp add: dispatchJanuaRoleUpgrade_def Let_def split: http.splits)

lemma billingEvents_dispatchJanuaRoleUpgrade [simp]:
  "billingEvents (dispatchJanuaRoleUpgrade env j p s) = billingEvents s"
  by (simp add: dispatchJanuaRoleUpgrade_def Let_def split: http.splits)

lemma users_user_update [simp]:
  "users (user_update i f s) = update_first (\<lambda>u. user_id u = i) f (users s)"
  and billingEvents_user_update [simp]: "billingEvents (user_update i f s) = billingEvents s"
  by (simp_all add: user_update_def)

lemma untouched:
  "auditLog (logger l m s) = auditLog s" "outbound (logger l m s) = outbound s"
  "auditLog (user_update i f s) = auditLog s" "outbound (user_update i f s) = outbound s"
  by (simp_all add: logger_def user_update_def)

subsection \<open>Handlers and the ledger\<close>

text \<open>No primitive but the insert reads the ledger: each commutes with replacing it.\<close>

lemma logger_ledger: "logger l m (s\<lparr>billingEvents := b\<rparr>) = (logger l m s)\<lparr>billingEvents := b\<rparr>"
  by (simp add: logger_def)

lemma audit_log_ledger: "audit_log a (s\<lparr>billingEvents := b\<rparr>) = (audit_log a s)\<lparr>billingEvents := b\<rparr>"
  by (simp add: audit_log_def)

lemma request_ledger: "request q (s\<lparr>billingEvents := b\<rparr>) = (request q s)\<lparr>billingEvents := b\<rparr>"
  by (simp add: request_def)

lemma user_update_ledger:
  "user_update i f (s\<lparr>billingEvents := b\<rparr>) = (user_update i f s)\<lparr>billingEvents := b\<rparr>"
  by (simp add: user_update_def)

lemma dispatchJanuaRoleUpgrade_ledger:
  "dispatchJanuaRoleUpgrade env j p (s\<lparr>billingEvents := b\<rparr>)
     = (dispatchJanuaRoleUpgrade env j p s)\<lparr>billingEvents := b\<rparr>"
  by (simp add: dispatchJanuaRoleUpgrade_def Let_def logger_ledger request_ledger split: http.splits)

lemma find_ledger:
  "findUnique_stripeCustomerId c (s\<lparr>billingEvents := b\<rparr>) = findUnique_stripeCustomerId c s"
  "findUnique_id i (s\<lparr>billingEvents := b\<rparr>) = findUnique_id i s"
  by (simp_all add: findUnique_stripeCustomerId_def findUnique_id_def)

lemmas ledger_moves = logger_ledger audit_log_ledger request_ledger user_update_ledger
  dispatchJanuaRoleUpgrade_ledger find_ledger

lemma handleWebhook_verified:
  assumes "given (STRIPE_WEBHOOK_SECRET env)"
    and "constructEvent env now rawBody signature (the (STRIPE_WEBHOOK_SECRET env)) = Inr event"
  shows "handleWebhook env now rawBody signature s =
    (case dispatch_event env now event
            (logger LOG [S ''Received Stripe webhook: '', S (event_type event)] s) of
       (Inl err, s2) \<Rightarrow>
         (\<lparr>received = False, error = Some (message err)\<rparr>,
          logger ERROR [S ''Error processing webhook: '', S (message err)] s2)
     | (Inr u, s2) \<Rightarrow> (\<lparr>received = True, error = None\<rparr>, s2))"
  using assms by (simp add: handleWebhook_def Let_def)

text \<open>Handler by handler: the ledger is read by the insert only.\<close>

lemma ignores_ledger_created: "ignores_ledger env eid (handleSubscriptionCreated env eid x)"
  unfolding ignores_ledger_def
  by (auto simp: handleSubscriptionCreated_def Let_def ledger_moves untouched billingEvent_create_def
      split: option.splits list.splits sum.splits)

lemma ignores_ledger_updated: "ignores_ledger env eid (handleSubscriptionUpdated env eid x)"
  unfolding ignores_ledger_def
  by (auto simp: handleSubscriptionUpdated_def Let_def ledger_moves untouched billingEvent_create_def
      split: option.splits list.splits sum.splits)

lemma ignores_ledger_cancelled: "ignores_ledger env eid (handleSubscriptionCancelled env eid x)"
  unfolding ignores_ledger_def
  by (auto simp: handleSubscriptionCancelled_def Let_def ledger_moves untouched billingEvent_create_def
      split: option.splits list.splits sum.splits)

lemma ignores_ledger_payment_succeeded: "ignores_ledger env eid (handlePaymentSucceeded env eid x)"
  unfolding ignores_ledger_def
  by (auto simp: handlePaymentSucceeded_def Let_def ledger_moves untouched billingEvent_create_def
      split: option.splits list.splits sum.splits)

lemma ignores_ledger_payment_failed: "ignores_ledger env eid (handlePaymentFailed env eid x)"
  unfolding ignores_ledger_def
  by (auto simp: handlePaymentFailed_def Let_def ledger_moves untouched billingEvent_create_def
      split: option.splits list.splits sum.splits)

lemma ignores_ledger_other: "ignores_ledger env eid (\<lambda>s. (Inr (), logger LOG m s))"
  unfolding ignores_ledger_def
  by (auto simp: ledger_moves untouched)

lemma ignores_ledger_checkout: "ignores_ledger env eid (handleCheckoutCompleted env now eid x)"
  unfolding ignores_ledger_def
proof (intro allI)
  fix s :: Store
  let ?H = "handleCheckoutCompleted env now eid x"
  let ?s0 = "s\<lparr>billingEvents := []\<rparr>"
  let ?goal = "users (snd (?H s)) = users (snd (?H ?s0))
     \<and> map stripeEventId (billingEvents (snd (?H ?s0)))
         = (if billingEvents (snd (?H ?s0)) = [] then [] else [eid])
     \<and> (billingEvents (snd (?H ?s0)) \<noteq> [] \<longrightarrow> fst (?H ?s0) = Inr ())
     \<and> (if unique_stripeEventId env \<and> list_ex (\<lambda>e. stripeEventId e = eid) (billingEvents s)
            \<and> billingEvents (snd (?H ?s0)) \<noteq> []
         then (\<exists>m. fst (?H s) = Inl (PrismaClientError m))
            \<and> billingEvents (snd (?H s)) = billingEvents s
            \<and> auditLog (snd (?H s)) = auditLog s
            \<and> outbound (snd (?H s)) = outbound s
         else fst (?H s) = fst (?H ?s0)
            \<and> snd (?H s) = (snd (?H ?s0))
                 \<lparr>billingEvents := billingEvents s @ billingEvents (snd (?H ?s0))\<rparr>)"
  consider (skip) "\<not> given (cs_janua_user_id x)"
    | (nouser) "given (cs_janua_user_id x)" "findUnique_id (the (cs_janua_user_id x)) s = None"
    | (notier) user where "given (cs_janua_user_id x)"
        "findUnique_id (the (cs_janua_user_id x)) s = Some user"
        "as_SubscriptionTier (checkout_tier (cs_plan x)) = None"
    | (run) user t where "given (cs_janua_user_id x)"
        "findUnique_id (the (cs_janua_user_id x)) s = Some user"
        "as_SubscriptionTier (checkout_tier (cs_plan x)) = Some t"
    by (cases "findUnique_id (the (cs_janua_user_id x)) s";
        cases "as_SubscriptionTier (checkout_tier (cs_plan x))") auto
  then show ?goal
  proof cases
    case skip
    have "?H t = (Inr (), logger LOG
        [S ''checkout.session.completed without janua_user_id metadata, skipping''] t)" for t
      using skip by (simp add: handleCheckoutCompleted_def)
    then show ?thesis by (simp add: ledger_moves untouched)
  next
    case nouser
    have "?H t = (Inr (), logger ERROR
        [S ''User not found for janua_user_id: '', S (the (cs_janua_user_id x))] t)"
      if "findUnique_id (the (cs_janua_user_id x)) t = None" for t
      using nouser(1) that by (simp add: handleCheckoutCompleted_def)
    from this [of s] this [of ?s0] nouser(2) show ?thesis by (simp add: ledger_moves untouched)
  next
    case notier
    have "?H t = (Inl (PrismaClientError ''Invalid value for argument `subscriptionTier`''), t)"
      if "findUnique_id (the (cs_janua_user_id x)) t = Some user" for t
      using notier(1,3) that by (simp add: handleCheckoutCompleted_def)
    from this [of s] this [of ?s0] notier(2) show ?thesis by (simp add: ledger_moves untouched)
  next
    case run
    define f where "f = (\<lambda>u :: User. u\<lparr>subscriptionTier := t, subscriptionStartedAt := Some now,
        stripeCustomerId := (if given (cs_customer x) then cs_customer x
                             else stripeCustomerId user)\<rparr>)"
    define row where "row = \<lparr>userId = user_id user, type = subscription_created,
        amount = cents (get_default (amount_total x) 0),
        currency = (case cs_currency x of None \<Rightarrow> ''USD'' | Some c \<Rightarrow> currency_or_USD c),
        status = succeeded, stripeEventId = eid,
        metadata = [(''plan'', (case cs_plan x of None \<Rightarrow> JUndefined | Some p \<Rightarrow> JString p)),
                    (''source'', (case cs_source x of None \<Rightarrow> JUndefined | Some x \<Rightarrow> JString x))]\<rparr>"
    define after where "after = (\<lambda>s2 :: Store.
        let s3 = request (StripeRetrieveCheckoutSession (cs_id x)) s2;
            (productId, s4) =
              (case stripe_sessions_retrieve env (cs_id x) of
                 Inl err \<Rightarrow>
                   (None, logger WARN
                      [S ''Failed to retrieve checkout session line_items: '',
                       S (message err)] s3)
               | Inr p \<Rightarrow> (p, s3));
            s5 = dispatchJanuaRoleUpgrade env (the (cs_janua_user_id x)) productId s4
        in logger LOG [S ''Checkout completed for user '', S (user_id user),
                        S '', tier: '', S (tier_name t)] s5)"
    have after_ledger: "after (t\<lparr>billingEvents := b\<rparr>) = (after t)\<lparr>billingEvents := b\<rparr>" for t b
      by (simp add: after_def Let_def ledger_moves split: sum.splits)
    have after_proj: "users (after t) = users t" "billingEvents (after t) = billingEvents t" for t
      by (simp_all add: after_def Let_def split: sum.splits)
    have H: "?H t = (case billingEvent_create env row (user_update (user_id user) f t) of
                       Inl e \<Rightarrow> (Inl e, user_update (user_id user) f t)
                     | Inr s2 \<Rightarrow> (Inr (), after s2))"
      if "findUnique_id (the (cs_janua_user_id x)) t = Some user" for t
      using run(1,3) that
      by (simp add: handleCheckoutCompleted_def Let_def f_def row_def after_def
          split: sum.splits prod.splits)
    have id: "stripeEventId row = eid" by (simp add: row_def)
    from H [of s] H [of ?s0] run(2) show ?thesis
      by (simp add: ledger_moves untouched billingEvent_create_def id after_ledger after_proj)
  qed
qed

lemma dispatch_event_simps:
  "dispatch_event env now (customer_subscription_created i x) = handleSubscriptionCreated env i x"
  "dispatch_event env now (customer_subscription_updated i x) = handleSubscriptionUpdated env i x"
  "dispatch_event env now (customer_subscription_deleted i x) = handleSubscriptionCancelled env i x"
  "dispatch_event env now (invoice_payment_succeeded i y) = handlePaymentSucceeded env i y"
  "dispatch_event env now (invoice_payment_failed i y) = handlePaymentFailed env i y"
  "dispatch_event env now (checkout_session_completed i z) = handleCheckoutCompleted env now i z"
  "dispatch_event env now (other_event i t)
     = (\<lambda>s. (Inr (), logger LOG [S ''Unhandled event type: '', S t] s))"
  by (rule ext, simp add: dispatch_event_def)+

lemma ignores_ledger_dispatch_event: "ignores_ledger env (event_id event) (dispatch_event env now event)"
  by (cases event)
     (simp_all add: dispatch_event_simps ignores_ledger_created ignores_ledger_updated ignores_ledger_cancelled
        ignores_ledger_payment_succeeded ignores_ledger_payment_failed ignores_ledger_checkout ignores_ledger_other)

text \<open>The first delivery of the subscription-created event of \<open>env1\<close> to \<open>store0\<close>.\<close>

lemma first_delivery:
  "handleWebhook (env1\<lparr>unique_stripeEventId := uq\<rparr>) 0 ''{id: evt_test123}''
      ''t=0,v1=valid_signature'' store0 =
    (\<lparr>received = True, error = None\<rparr>,
     store0\<lparr>users := [user0\<lparr>subscriptionTier := pro,
                    subscriptionStartedAt := Some 1700000000000,
                    subscriptionExpiresAt := Some 1702592000000,
                    stripeSubscriptionId := Some ''sub_test123''\<rparr>],
       billingEvents := [\<lparr>userId = ''user-123'', type = subscription_created, amount = 1199 / 100,
            currency = ''USD'', status = succeeded, stripeEventId = ''evt_test123'',
            metadata = [(''subscriptionId'', JString ''sub_test123'')]\<rparr>],
       auditLog := [\<lparr>audit_userId = ''user-123'', action = ''SUBSCRIPTION_ACTIVATED'',
            severity = ''high'',
            audit_metadata = [(''tier'', JString ''pro''), (''subscriptionId'', JString ''sub_test123'')]\<rparr>],
       logged := [(LOG, [S ''Received Stripe webhook: '', S ''customer.subscription.created'']),
                  (LOG, [S ''Subscription created for user '', S ''user-123''])]\<rparr>)"
  by (simp add: handleWebhook_def dispatch_event_def handleSubscriptionCreated_def store_ops
      fixtures env1_def)

text \<open>Then the deletion \<^verbatim>\<open>evt_test456\<close> of the subscription, 130 seconds later.\<close>

lemma cancellation_delivery:
  "handleWebhook env1 130000 ''{id: evt_test456}'' ''t=120,v1=valid_signature''
      (snd (handleWebhook env1 0 ''{id: evt_test123}'' ''t=0,v1=valid_signature'' store0)) =
    (\<lparr>received = True, error = None\<rparr>,
     store0\<lparr>users := [user0\<lparr>subscriptionTier := community,
                    subscriptionStartedAt := Some 1700000000000,
                    subscriptionExpiresAt := None,
                    stripeSubscriptionId := None\<rparr>],
       billingEvents := [\<lparr>userId = ''user-123'', type = subscription_created, amount = 1199 / 100,
            currency = ''USD'', status = succeeded, stripeEventId = ''evt_test123'',
            metadata = [(''subscriptionId'', JString ''sub_test123'')]\<rparr>,
          \<lparr>userId = ''user-123'', type = subscription_cancelled, amount = 0,
            currency = ''USD'', status = succeeded, stripeEventId = ''evt_test456'',
            metadata = [(''subscriptionId'', JString ''sub_test123'')]\<rparr>],
       auditLog := [\<lparr>audit_userId = ''user-123'', action = ''SUBSCRIPTION_ACTIVATED'',
            severity = ''high'',
            audit_metadata = [(''tier'', JString ''pro''), (''subscriptionId'', JString ''sub_test123'')]\<rparr>,
          \<lparr>audit_userId = ''user-123'', action = ''SUBSCRIPTION_CANCELLED'',
            severity = ''medium'',
            audit_metadata = [(''subscriptionId'', JString ''sub_test123'')]\<rparr>],
       logged := [(LOG, [S ''Received Stripe webhook: '', S ''customer.subscription.created'']),
                  (LOG, [S ''Subscription created for user '', S ''user-123'']),
                  (LOG, [S ''Received Stripe webhook: '', S ''customer.subscription.deleted'']),
                  (LOG, [S ''Subscription cancelled for user '', S ''user-123''])]\<rparr>)"
proof -
  have e: "env1\<lparr>unique_stripeEventId := True\<rparr> = env1" by (simp add: env1_def env0_def)
  show ?thesis
    unfolding first_delivery [of True, unfolded e] snd_conv
    by (simp add: handleWebhook_def dispatch_event_def handleSubscriptionCancelled_def store_ops
        fixtures env1_def)
qed

section \<open>Billing API: usage metering, properties\<close>

subsection \<open>Usage counters\<close>

lemma setHours_0_utc: "setHours_0 0 now = utc_day now * 86400000"
  by (simp add: setHours_0_def utc_day_def minus_mod_eq_div_mult)

lemma users_recordUsage_at [simp]: "users (recordUsage_at env ts u m s) = users s"
  by (induction ts arbitrary: s) (simp_all add: recordUsage_def Let_def)

lemma counted_recordUsage:
  "counted (recordUsage env t u m s) (u, m, d)
     = (if setHours_0 (timezone env) t = d then counted s (u, m, d) + 1 else counted s (u, m, d))"
  by (simp add: counted_def recordUsage_def Let_def split: option.splits)

lemma counted_recordUsage_at:
  "\<forall>t \<in> set ts. setHours_0 (timezone env) t = d \<Longrightarrow>
   counted (recordUsage_at env ts u m s) (u, m, d) = counted s (u, m, d) + length ts"
  by (induction ts arbitrary: s) (simp_all add: counted_recordUsage)

lemma checkUsageLimit_counted:
  assumes "findUnique_id u s = Some user" and "subscriptionTier user \<noteq> pro"
    and "usageLimits (subscriptionTier user) m = Cap n" and "0 < n"
  shows "checkUsageLimit env now u m s = (counted s (u, m, setHours_0 (timezone env) now) < n)"
  using assms by (simp add: checkUsageLimit_def counted_def Let_def)

lemma findUnique_id_recordUsage_at [simp]:
  "findUnique_id u (recordUsage_at env ts u' m s) = findUnique_id u s"
  by (simp add: findUnique_id_def)

lemma checkUsageLimit_pro:
  assumes "findUnique_id u s = Some user" and "subscriptionTier user = pro"
  shows "checkUsageLimit env now u m (recordUsage_at env ts u m s) = True"
  using assms by (simp add: checkUsageLimit_def)

lemma checkUsageLimit_zero:
  assumes "findUnique_id u s = Some user" and "subscriptionTier user \<noteq> pro"
    and "usageLimits (subscriptionTier user) m = Cap 0"
  shows "checkUsageLimit env now u m (recordUsage_at env ts u m s) = False"
  using assms by (simp add: checkUsageLimit_def)

lemma checkUsageLimit_after_records:
  assumes "findUnique_id u s = Some user" and "subscriptionTier user \<noteq> pro"
    and "usageLimits (subscriptionTier user) m = Cap n" and "0 < n"
    and "\<forall>t \<in> set ts. setHours_0 (timezone env) t = setHours_0 (timezone env) now"
    and "usageMetrics s (u, m, setHours_0 (timezone env) now) = None"
  shows "checkUsageLimit env now u m (recordUsage_at env ts u m s) = (length ts < n)"
proof -
  have "findUnique_id u (recordUsage_at env ts u m s) = Some user"
    using assms(1) by simp
  from checkUsageLimit_counted [OF this assms(2,3,4)]
  show ?thesis
    using assms(5,6) by (simp add: counted_recordUsage_at) (simp add: counted_def)
qed

lemma checkUsageLimit_after_records_utc:
  assumes "timezone env = 0"
    and "findUnique_id u s = Some user" and "subscriptionTier user \<noteq> pro"
    and "usageLimits (subscriptionTier user) m = Cap n" and "0 < n"
    and "\<forall>t \<in> set ts. utc_day t = utc_day now"
    and "usageMetrics s (u, m, setHours_0 0 now) = None"
  shows "checkUsageLimit env now u m (recordUsage_at env ts u m s) = (length ts < n)"
  using checkUsageLimit_after_records [OF assms(2,3,4,5), of ts env now] assms(1,6,7)
  by (simp add: setHours_0_utc)

section \<open>Billing API: checkout and upgrade, properties\<close>

subsection \<open>The tier of a completed checkout\<close>

lemma Object_prototype_not_mapped: "p \<in> set Object_prototype \<Longrightarrow> map_of PLAN_TIER_MAP p = None"
  by (auto simp: Object_prototype_def PLAN_TIER_MAP_def)

lemma checkout_tier_inherited:
  "p \<in> set Object_prototype \<Longrightarrow> checkout_tier (Some p) = Inherited p"
  using Object_prototype_not_mapped [of p]
  by (auto simp: checkout_tier_def get_prop_def given_def Object_prototype_def)

lemma checkout_tier_own:
  assumes "\<forall>p. plan' = Some p \<longrightarrow> p \<notin> set Object_prototype"
  shows "as_SubscriptionTier (checkout_tier plan') =
    Some (if plan' = Some ''essentials'' \<or> plan' = Some ''essentials_yearly''
          then essentials else pro)"
proof (cases plan')
  case None
  then show ?thesis by (simp add: checkout_tier_def given_def as_SubscriptionTier_def)
next
  case (Some p)
  with assms have "p \<notin> set Object_prototype" by simp
  with Some show ?thesis
    by (auto simp: checkout_tier_def given_def as_SubscriptionTier_def get_prop_def
        PLAN_TIER_MAP_def)
qed

lemma handleCheckoutCompleted_sets_tier:
  assumes "given (cs_janua_user_id session)"
    and "findUnique_id (the (cs_janua_user_id session)) s = Some user"
    and "\<forall>p. cs_plan session = Some p \<longrightarrow> p \<notin> set Object_prototype"
    and "\<not> (unique_stripeEventId env \<and> list_ex (\<lambda>e. stripeEventId e = eid) (billingEvents s))"
  shows "fst (handleCheckoutCompleted env now eid session s) = Inr ()
    \<and> findUnique_id (user_id user) (snd (handleCheckoutCompleted env now eid session s))
        = Some (user\<lparr>subscriptionTier :=
                       (if cs_plan session = Some ''essentials''
                           \<or> cs_plan session = Some ''essentials_yearly''
                        then essentials else pro),
                     subscriptionStartedAt := Some now,
                     stripeCustomerId :=
                       (if given (cs_customer session) then cs_customer session
                        else stripeCustomerId user)\<rparr>)
    \<and> (\<exists>row. billingEvents (snd (handleCheckoutCompleted env now eid session s))
                 = billingEvents s @ [row]
              \<and> userId row = user_id user
              \<and> amount row = of_int (get_default (amount_total session) 0) / 100
              \<and> status row = succeeded \<and> stripeEventId row = eid)"
proof -
  let ?t = "if cs_plan session = Some ''essentials'' \<or> cs_plan session = Some ''essentials_yearly''
            then essentials else pro"
  let ?f = "\<lambda>u. u\<lparr>subscriptionTier := ?t, subscriptionStartedAt := Some now,
                   stripeCustomerId := (if given (cs_customer session) then cs_customer session
                                        else stripeCustomerId user)\<rparr>"
  let ?s1 = "user_update (user_id user) ?f s"
  have tier: "as_SubscriptionTier (checkout_tier (cs_plan session)) = Some ?t"
    by (rule checkout_tier_own [OF assms(3)])
  have uid: "user_id user = the (cs_janua_user_id session)"
    using find_Some_set [of "\<lambda>u. user_id u = the (cs_janua_user_id session)" "users s" user]
      assms(2)
    by (simp add: findUnique_id_def)
  have found: "findUnique_id (user_id user) ?s1 = Some (?f user)"
    using assms(2) uid by (simp add: findUnique_id_user_update)
  have be: "billingEvents ?s1 = billingEvents s" by (simp add: user_update_def)
  have regardless: "\<And>s2 r. findUnique_id (user_id user) (logger LOG r (dispatchJanuaRoleUpgrade env
        (the (cs_janua_user_id session)) p s2)) = findUnique_id (user_id user) s2
      \<and> billingEvents (logger LOG r (dispatchJanuaRoleUpgrade env
        (the (cs_janua_user_id session)) p s2)) = billingEvents s2" for p
    by (simp add: dispatchJanuaRoleUpgrade_def logger_def request_def findUnique_id_def Let_def
        split: http.splits)
  show ?thesis
    using assms(1,2,4) tier found be regardless
    by (auto simp: handleCheckoutCompleted_def Let_def billingEvent_create_def cents_def
        findUnique_id_def logger_def request_def split: sum.splits prod.splits)
qed

subsection \<open>Tier ranks\<close>



section \<open>Claim C1: an event delivered again\<close>

text \<open>
  C1, as amended.  No handler looks for an existing ledger row before it acts, so a verified
  Stripe event is processed the same whether or not it was processed before.  Compare its
  delivery to a store \<open>s\<close> with the delivery of the same request to \<open>s\<close> with
  an empty ledger, where the event is certainly new.  The users after the delivery are the
  users after the delivery to the empty ledger: the subscriber update is repeated on the
  store the delivery finds (a subscription-created event delivered again grants \<open>pro\<close>
  again, also when a cancellation came in between).  A delivery inserts at most one ledger
  row, and the row has the event id.  The ledger matters in one case only: when the table
  enforces unique event ids, the event id is already in the ledger, and the handler reaches
  its insert.  Then the insert is refused after the subscriber update has been made; the
  delivery, which to the empty ledger is acknowledged, is answered \<open>received: false\<close>
  with the storage error, and writes no ledger row, no audit entry and no request to a
  provider.  In every other case the delivery has the answer and the effects of the
  delivery to the empty ledger, and its row, if any, is appended to the ledger found: a
  second row with the same event id when one was there.
\<close>

theorem duplicate_delivery:
  assumes "given (STRIPE_WEBHOOK_SECRET env)"
    and "constructEvent env now rawBody signature (the (STRIPE_WEBHOOK_SECRET env)) = Inr event"
    and "handleWebhook env now rawBody signature s = (r, s')"
    and "handleWebhook env now rawBody signature (s\<lparr>billingEvents := []\<rparr>) = (r0, s0)"
  shows "users s' = users s0
    \<and> map stripeEventId (billingEvents s0) = (if billingEvents s0 = [] then [] else [event_id event])
    \<and> (if unique_stripeEventId env
           \<and> list_ex (\<lambda>e. stripeEventId e = event_id event) (billingEvents s)
           \<and> billingEvents s0 \<noteq> []
        then received r0 \<and> \<not> received r \<and> error r \<noteq> None
           \<and> billingEvents s' = billingEvents s
           \<and> auditLog s' = auditLog s \<and> outbound s' = outbound s
        else r = r0 \<and> s' = s0\<lparr>billingEvents := billingEvents s @ billingEvents s0\<rparr>)"
proof -
  let ?m = "[S ''Received Stripe webhook: '', S (event_type event)]"
  let ?H = "dispatch_event env now event"
  let ?t = "logger LOG ?m s"
  let ?u = "?t\<lparr>billingEvents := []\<rparr>"
  have u: "logger LOG ?m (s\<lparr>billingEvents := []\<rparr>) = ?u" by (rule logger_ledger)
  obtain x t' where Ht: "?H ?t = (x, t')" by (cases "?H ?t")
  obtain x0 u' where Hu: "?H ?u = (x0, u')" by (cases "?H ?u")
  note R = ignores_ledger_dispatch_event [of env event now, unfolded ignores_ledger_def, rule_format, of ?t,
      unfolded Ht Hu fst_conv snd_conv billingEvents_logger]
  have first: "(r, s') = (case x of
        Inl err \<Rightarrow> (\<lparr>received = False, error = Some (message err)\<rparr>,
                     logger ERROR [S ''Error processing webhook: '', S (message err)] t')
      | Inr v \<Rightarrow> (\<lparr>received = True, error = None\<rparr>, t'))"
    using assms(3) unfolding handleWebhook_verified [OF assms(1,2)] Ht by (simp split: sum.splits)
  have ref: "(r0, s0) = (case x0 of
        Inl err \<Rightarrow> (\<lparr>received = False, error = Some (message err)\<rparr>,
                     logger ERROR [S ''Error processing webhook: '', S (message err)] u')
      | Inr v \<Rightarrow> (\<lparr>received = True, error = None\<rparr>, u'))"
    using assms(4) unfolding handleWebhook_verified [OF assms(1,2)] u Hu by (simp split: sum.splits)
  show ?thesis
  proof (cases "unique_stripeEventId env
           \<and> list_ex (\<lambda>e. stripeEventId e = event_id event) (billingEvents s)
           \<and> billingEvents u' \<noteq> []")
    case True
    with R obtain m where x: "x = Inl (PrismaClientError m)" and x0: "x0 = Inr ()"
      and eq: "users t' = users u'" "billingEvents t' = billingEvents s"
        "auditLog t' = auditLog (logger LOG ?m s)" "outbound t' = outbound (logger LOG ?m s)"
        "map stripeEventId (billingEvents u') = [event_id event]"
      by auto
    from first ref x x0 have "r = \<lparr>received = False, error = Some m\<rparr>"
      "s' = logger ERROR [S ''Error processing webhook: '', S m] t'"
      "r0 = \<lparr>received = True, error = None\<rparr>" "s0 = u'"
      by simp_all
    with True eq show ?thesis by (simp add: untouched)
  next
    case False
    with R have x: "x = x0"
      and t': "t' = u'\<lparr>billingEvents := billingEvents s @ billingEvents u'\<rparr>"
      and ids: "map stripeEventId (billingEvents u') = (if billingEvents u' = [] then [] else [event_id event])"
      by (auto split: if_splits)
    show ?thesis
    proof (cases x0)
      case (Inl err)
      with first ref x have "r = r0" "s0 = logger ERROR [S ''Error processing webhook: '', S (message err)] u'"
        "s' = logger ERROR [S ''Error processing webhook: '', S (message err)] t'"
        by simp_all
      with False ids t' show ?thesis by (auto simp: logger_ledger)
    next
      case (Inr v)
      with first ref x have "r = r0" "s0 = u'" "s' = t'" by simp_all
      with False ids t' show ?thesis by auto
    qed
  qed
qed

text \<open>
  The theorem at a third delivery.  The subscription-created event \<^verbatim>\<open>evt_test123\<close>
  is delivered to \<open>store0\<close> and grants \<open>pro\<close>; 130 seconds later the deletion
  \<^verbatim>\<open>evt_test456\<close> reverts the user to \<open>community\<close>; another 120 seconds later
  Stripe delivers \<^verbatim>\<open>evt_test123\<close> again, with a fresh signature header.  The ledger
  enforces unique event ids.  The third delivery grants \<open>pro\<close> again, is not
  acknowledged, and leaves the two ledger rows.
\<close>

theorem duplicate_delivery_witness:
  "map subscriptionTier (users (snd
      (handleWebhook env1 130000 ''{id: evt_test456}'' ''t=120,v1=valid_signature''
        (snd (handleWebhook env1 0 ''{id: evt_test123}'' ''t=0,v1=valid_signature'' store0)))))
     = [community]
   \<and> map subscriptionTier (users (snd
      (handleWebhook env1 250000 ''{id: evt_test123}'' ''t=240,v1=valid_signature''
        (snd (handleWebhook env1 130000 ''{id: evt_test456}'' ''t=120,v1=valid_signature''
          (snd (handleWebhook env1 0 ''{id: evt_test123}'' ''t=0,v1=valid_signature'' store0)))))))
     = [pro]
   \<and> \<not> received (fst
      (handleWebhook env1 250000 ''{id: evt_test123}'' ''t=240,v1=valid_signature''
        (snd (handleWebhook env1 130000 ''{id: evt_test456}'' ''t=120,v1=valid_signature''
          (snd (handleWebhook env1 0 ''{id: evt_test123}'' ''t=0,v1=valid_signature'' store0))))))
   \<and> map stripeEventId (billingEvents (snd
      (handleWebhook env1 250000 ''{id: evt_test123}'' ''t=240,v1=valid_signature''
        (snd (handleWebhook env1 130000 ''{id: evt_test456}'' ''t=120,v1=valid_signature''
          (snd (handleWebhook env1 0 ''{id: evt_test123}'' ''t=0,v1=valid_signature'' store0)))))))
     = [''evt_test123'', ''evt_test456'']"
proof -
  let ?event = "customer_subscription_created ''evt_test123'' subscription0"
  let ?sB = "snd (handleWebhook env1 130000 ''{id: evt_test456}'' ''t=120,v1=valid_signature''
        (snd (handleWebhook env1 0 ''{id: evt_test123}'' ''t=0,v1=valid_signature'' store0)))"
  let ?third = "handleWebhook env1 250000 ''{id: evt_test123}'' ''t=240,v1=valid_signature''"
  have h1: "given (STRIPE_WEBHOOK_SECRET env1)" by (simp add: env1_def env0_def given_def)
  have h2: "constructEvent env1 250000 ''{id: evt_test123}'' ''t=240,v1=valid_signature''
      (the (STRIPE_WEBHOOK_SECRET env1)) = Inr ?event"
    by (simp add: env1_def fixtures)
  have h3: "?third ?sB = (fst (?third ?sB), snd (?third ?sB))" by simp
  have h4: "?third (?sB\<lparr>billingEvents := []\<rparr>)
      = (fst (?third (?sB\<lparr>billingEvents := []\<rparr>)), snd (?third (?sB\<lparr>billingEvents := []\<rparr>)))"
    by simp
  have ref: "?third (?sB\<lparr>billingEvents := []\<rparr>) =
    (\<lparr>received = True, error = None\<rparr>,
     store0\<lparr>users := [user0\<lparr>subscriptionTier := pro,
                    subscriptionStartedAt := Some 1700000000000,
                    subscriptionExpiresAt := Some 1702592000000,
                    stripeSubscriptionId := Some ''sub_test123''\<rparr>],
       billingEvents := [\<lparr>userId = ''user-123'', type = subscription_created, amount = 1199 / 100,
            currency = ''USD'', status = succeeded, stripeEventId = ''evt_test123'',
            metadata = [(''subscriptionId'', JString ''sub_test123'')]\<rparr>],
       auditLog := [\<lparr>audit_userId = ''user-123'', action = ''SUBSCRIPTION_ACTIVATED'',
            severity = ''high'',
            audit_metadata = [(''tier'', JString ''pro''), (''subscriptionId'', JString ''sub_test123'')]\<rparr>,
          \<lparr>audit_userId = ''user-123'', action = ''SUBSCRIPTION_CANCELLED'',
            severity = ''medium'',
            audit_metadata = [(''subscriptionId'', JString ''sub_test123'')]\<rparr>,
          \<lparr>audit_userId = ''user-123'', action = ''SUBSCRIPTION_ACTIVATED'',
            severity = ''high'',
            audit_metadata = [(''tier'', JString ''pro''), (''subscriptionId'', JString ''sub_test123'')]\<rparr>],
       logged := [(LOG, [S ''Received Stripe webhook: '', S ''customer.subscription.created'']),
                  (LOG, [S ''Subscription created for user '', S ''user-123'']),
                  (LOG, [S ''Received Stripe webhook: '', S ''customer.subscription.deleted'']),
                  (LOG, [S ''Subscription cancelled for user '', S ''user-123'']),
                  (LOG, [S ''Received Stripe webhook: '', S ''customer.subscription.created'']),
                  (LOG, [S ''Subscription created for user '', S ''user-123''])]\<rparr>)"
    unfolding cancellation_delivery snd_conv
    by (simp add: handleWebhook_def dispatch_event_def handleSubscriptionCreated_def store_ops
        fixtures env1_def)
  have present: "unique_stripeEventId env1
      \<and> list_ex (\<lambda>e. stripeEventId e = event_id ?event) (billingEvents ?sB)"
    unfolding cancellation_delivery snd_conv by (simp add: env1_def fixtures)
  have sB: "map subscriptionTier (users ?sB) = [community]
      \<and> map stripeEventId (billingEvents ?sB) = [''evt_test123'', ''evt_test456'']"
    unfolding cancellation_delivery snd_conv by (simp add: fixtures)
  show ?thesis
    using duplicate_delivery [OF h1 h2 h3 h4] present sB unfolding ref fst_conv snd_conv
    by (simp add: fixtures)
qed

text \<open>
  C1 as stated: one ledger row after two deliveries, the second acknowledged and dropped.
  The event \<^verbatim>\<open>evt_test123\<close> is delivered to \<open>store0\<close> and, 130 seconds later,
  delivered again with a fresh signature header.  Without the storage constraint it leaves
  two rows; with it the second delivery is not acknowledged.
\<close>

theorem duplicate_delivery_counterexample:
  "map stripeEventId
     (billingEvents (snd (handleWebhook (env1\<lparr>unique_stripeEventId := False\<rparr>) 130000
        ''{id: evt_test123}'' ''t=120,v1=valid_signature''
        (snd (handleWebhook (env1\<lparr>unique_stripeEventId := False\<rparr>) 0
           ''{id: evt_test123}'' ''t=0,v1=valid_signature'' store0)))))
     = [''evt_test123'', ''evt_test123'']
   \<and> received (fst (handleWebhook (env1\<lparr>unique_stripeEventId := True\<rparr>) 130000
        ''{id: evt_test123}'' ''t=120,v1=valid_signature''
        (snd (handleWebhook (env1\<lparr>unique_stripeEventId := True\<rparr>) 0
           ''{id: evt_test123}'' ''t=0,v1=valid_signature'' store0)))) = False"
  unfolding first_delivery snd_conv
  by (simp add: handleWebhook_def dispatch_event_def handleSubscriptionCreated_def store_ops
      fixtures env1_def)

section \<open>Claim C2: cancellation reverts the tier and clears the subscription id\<close>

text \<open>
  C2, as amended.  For every subscriber found by a Stripe
  \<^verbatim>\<open>customer.subscription.deleted\<close> event (the user whose Stripe customer id is the
  event's customer; the user table has a primary key, so the ids are distinct), processing
  the event sets that user's tier to \<open>community\<close>, sets \<open>subscriptionExpiresAt\<close> to
  null and clears \<open>stripeSubscriptionId\<close>.  It then inserts one ledger row with amount 0
  and status \<open>succeeded\<close> and returns normally, unless the ledger table enforces unique
  event ids and already holds the event id: then the insert is refused, the handler fails
  with the storage error after the subscriber update, and no row is appended.
\<close>

theorem handleSubscriptionCancelled_reverts:
  assumes "distinct (map user_id (users s))"
    and "findUnique_stripeCustomerId (sub_customer subscription) s = Some user"
  shows "findUnique_id (user_id user) (snd (handleSubscriptionCancelled env eid subscription s))
        = Some (user\<lparr>subscriptionTier := community, subscriptionExpiresAt := None,
                     stripeSubscriptionId := None\<rparr>)
    \<and> (if unique_stripeEventId env \<and> list_ex (\<lambda>e. stripeEventId e = eid) (billingEvents s)
        then (\<exists>m. fst (handleSubscriptionCancelled env eid subscription s)
                      = Inl (PrismaClientError m))
           \<and> billingEvents (snd (handleSubscriptionCancelled env eid subscription s))
               = billingEvents s
        else fst (handleSubscriptionCancelled env eid subscription s) = Inr ()
           \<and> billingEvents (snd (handleSubscriptionCancelled env eid subscription s))
               = billingEvents s @
                 [\<lparr>userId = user_id user, type = subscription_cancelled, amount = 0,
                   currency = ''USD'', status = succeeded, stripeEventId = eid,
                   metadata = [(''subscriptionId'', JString (sub_id subscription))]\<rparr>])"
proof -
  let ?f = "\<lambda>u. u\<lparr>subscriptionTier := community, subscriptionExpiresAt := None,
                     stripeSubscriptionId := None\<rparr>"
  let ?s1 = "user_update (user_id user) ?f s"
  let ?row = "\<lparr>userId = user_id user, type = subscription_cancelled, amount = 0,
            currency = ''USD'', status = succeeded, stripeEventId = eid,
            metadata = [(''subscriptionId'', JString (sub_id subscription))]\<rparr>"
  have be: "billingEvents ?s1 = billingEvents s" by (simp add: user_update_def)
  have found: "findUnique_id (user_id user) ?s1 = Some (?f user)"
    using findUnique_id_of_found [OF assms(1,2)] by (simp add: findUnique_id_user_update)
  show ?thesis
  proof (cases "unique_stripeEventId env \<and> list_ex (\<lambda>e. stripeEventId e = eid) (billingEvents s)")
    case True
    then have cr: "billingEvent_create env ?row ?s1
        = Inl (PrismaClientError ''Unique constraint failed on the fields: (`stripeEventId`)'')"
      by (simp add: billingEvent_create_def)
    show ?thesis
      using assms(2) cr found be True
      by (simp add: handleSubscriptionCancelled_def Let_def)
  next
    case False
    then have cr: "billingEvent_create env ?row ?s1
        = Inr (?s1\<lparr>billingEvents := billingEvents ?s1 @ [?row]\<rparr>)"
      by (intro billingEvent_create_accepts) (simp add: be)
    show ?thesis
      using assms(2) cr found be False
      by (simp add: handleSubscriptionCancelled_def Let_def logger_def audit_log_def
          findUnique_id_def)
  qed
qed

text \<open>
  The theorem in the run the claim names: the subscription-created event first grants
  \<open>pro\<close> to the user of \<open>store0\<close>, then the cancellation of the same subscription
  arrives, and its row is inserted.  Then the cancellation is handled once more: the ledger
  of \<open>env0\<close> enforces unique event ids, the handler fails, and the ledger keeps its two
  rows.
\<close>

theorem handleSubscriptionCancelled_reverts_witness:
  "subscriptionTier (the (findUnique_id ''user-123''
      (snd (handleSubscriptionCreated env0 ''evt_test123'' subscription0 store0)))) = pro
   \<and> findUnique_id ''user-123''
        (snd (handleSubscriptionCancelled env0 ''evt_test456'' subscription0
           (snd (handleSubscriptionCreated env0 ''evt_test123'' subscription0 store0))))
      = Some (user0\<lparr>subscriptionTier := community,
                    subscriptionStartedAt := Some 1700000000000,
                    subscriptionExpiresAt := None,
                    stripeSubscriptionId := None\<rparr>)
   \<and> map stripeEventId (billingEvents
        (snd (handleSubscriptionCancelled env0 ''evt_test456'' subscription0
           (snd (handleSubscriptionCreated env0 ''evt_test123'' subscription0 store0)))))
      = [''evt_test123'', ''evt_test456'']
   \<and> fst (handleSubscriptionCancelled env0 ''evt_test456'' subscription0
        (snd (handleSubscriptionCancelled env0 ''evt_test456'' subscription0
           (snd (handleSubscriptionCreated env0 ''evt_test123'' subscription0 store0)))))
      \<noteq> Inr ()
   \<and> map stripeEventId (billingEvents
        (snd (handleSubscriptionCancelled env0 ''evt_test456'' subscription0
          (snd (handleSubscriptionCancelled env0 ''evt_test456'' subscription0
             (snd (handleSubscriptionCreated env0 ''evt_test123'' subscription0 store0)))))))
      = [''evt_test123'', ''evt_test456'']"
proof -
  let ?s1 = "snd (handleSubscriptionCreated env0 ''evt_test123'' subscription0 store0)"
  let ?s2 = "snd (handleSubscriptionCancelled env0 ''evt_test456'' subscription0 ?s1)"
  let ?u1 = "user0\<lparr>subscriptionTier := pro,
                    subscriptionStartedAt := Some 1700000000000,
                    subscriptionExpiresAt := Some 1702592000000,
                    stripeSubscriptionId := Some ''sub_test123''\<rparr>"
  let ?u2 = "user0\<lparr>subscriptionTier := community,
                    subscriptionStartedAt := Some 1700000000000,
                    subscriptionExpiresAt := None,
                    stripeSubscriptionId := None\<rparr>"
  have s1: "?s1 = store0\<lparr>users := [?u1],
       billingEvents := [\<lparr>userId = ''user-123'', type = subscription_created, amount = 1199 / 100,
            currency = ''USD'', status = succeeded, stripeEventId = ''evt_test123'',
            metadata = [(''subscriptionId'', JString ''sub_test123'')]\<rparr>],
       auditLog := [\<lparr>audit_userId = ''user-123'', action = ''SUBSCRIPTION_ACTIVATED'',
            severity = ''high'',
            audit_metadata = [(''tier'', JString ''pro''), (''subscriptionId'', JString ''sub_test123'')]\<rparr>],
       logged := [(LOG, [S ''Subscription created for user '', S ''user-123''])]\<rparr>"
    by (simp add: handleSubscriptionCreated_def store_ops fixtures)
  have h1: "distinct (map user_id (users ?s1))" unfolding s1 by (simp add: fixtures)
  have h2: "findUnique_stripeCustomerId (sub_customer subscription0) ?s1 = Some ?u1"
    unfolding s1 by (simp add: findUnique_stripeCustomerId_def fixtures)
  have fresh: "\<not> (unique_stripeEventId env0
       \<and> list_ex (\<lambda>e. stripeEventId e = ''evt_test456'') (billingEvents ?s1))"
    unfolding s1 by (simp add: fixtures)
  note once = handleSubscriptionCancelled_reverts [OF h1 h2, of env0 "''evt_test456''"]
  have users2: "users ?s2 = [?u2]"
    unfolding s1 by (simp add: handleSubscriptionCancelled_def store_ops fixtures)
  have ledger2: "map stripeEventId (billingEvents ?s2) = [''evt_test123'', ''evt_test456'']"
    using once fresh unfolding s1 by (simp add: fixtures)
  have k1: "distinct (map user_id (users ?s2))" unfolding users2 by (simp add: fixtures)
  have k2: "findUnique_stripeCustomerId (sub_customer subscription0) ?s2 = Some ?u2"
    unfolding findUnique_stripeCustomerId_def users2 by (simp add: fixtures)
  have present: "unique_stripeEventId env0
       \<and> list_ex (\<lambda>e. stripeEventId e = ''evt_test456'') (billingEvents ?s2)"
    using ledger2 by (auto simp: fixtures list_ex_iff)
  note again = handleSubscriptionCancelled_reverts [OF k1 k2, of env0 "''evt_test456''"]
  have first: "subscriptionTier (the (findUnique_id ''user-123'' ?s1)) = pro"
    unfolding s1 by (simp add: findUnique_id_def fixtures)
  have second: "findUnique_id ''user-123'' ?s2 = Some ?u2"
    using once unfolding s1 by (simp add: findUnique_id_def fixtures)
  have third: "fst (handleSubscriptionCancelled env0 ''evt_test456'' subscription0 ?s2) \<noteq> Inr ()
      \<and> billingEvents (snd (handleSubscriptionCancelled env0 ''evt_test456'' subscription0 ?s2))
          = billingEvents ?s2"
    using again present by auto
  show ?thesis
    using first second ledger2 third by simp
qed

text \<open>
  C2 as stated covers every subscription-cancelled webhook event.  The handler of the
  Janua event \<^verbatim>\<open>subscription.cancelled\<close> finds the subscriber \<open>user1\<close> by the Janua
  customer id, sets the tier to \<open>community\<close> and sets \<open>subscriptionExpiresAt\<close> to
  the time of processing, not to null.
\<close>

theorem handleJanuaSubscriptionCancelled_sets_expiry:
  "findUnique_id ''user-456''
     (snd (handleJanuaSubscriptionCancelled env0 1700000500000 payload0
        (store0\<lparr>users := [user1]\<rparr>)))
   = Some (user1\<lparr>subscriptionTier := community,
                 subscriptionExpiresAt := Some 1700000500000\<rparr>)"
  by (simp add: handleJanuaSubscriptionCancelled_def findFirst_januaCustomerId_def store_ops
      fixtures user1_def payload0_def)

section \<open>Claim C3: a webhook whose signature fails verification\<close>

text \<open>
  C3, as amended.  For every inbound Stripe webhook request whose signature fails
  verification (the webhook secret being configured), the endpoint answers
  \<open>received: false\<close> with the error \<open>Invalid signature\<close>; no handler runs, and the
  store differs from the one before only by the two error lines logged (one by the Stripe
  service, one by the controller).
\<close>

theorem handleWebhook_invalid_signature:
  assumes "given (STRIPE_WEBHOOK_SECRET env)"
    and "constructEvent env now rawBody signature (the (STRIPE_WEBHOOK_SECRET env)) = Inl err"
  shows "handleWebhook env now rawBody signature s =
    (\<lparr>received = False, error = Some ''Invalid signature''\<rparr>,
     s\<lparr>logged := logged s @
        [(ERROR, [S ''Webhook signature verification failed: '', S (message err)]),
         (ERROR, [S ''Webhook signature verification failed: '', S (message err)])]\<rparr>)"
  using assms by (simp add: handleWebhook_def logger_twice)

theorem handleWebhook_invalid_signature_witness:
  "handleWebhook env0 0 ''{}'' ''invalid_signature'' store0 =
    (\<lparr>received = False, error = Some ''Invalid signature''\<rparr>,
     store0\<lparr>logged := logged store0 @
        [(ERROR, [S ''Webhook signature verification failed: '',
                  S ''No signatures found matching the expected signature for payload'']),
         (ERROR, [S ''Webhook signature verification failed: '',
                  S ''No signatures found matching the expected signature for payload''])]\<rparr>)"
  using handleWebhook_invalid_signature [of env0 0 "''{}''" "''invalid_signature''" _ store0]
  by (simp add: fixtures given_def)

text \<open>
  C3 as stated has the endpoint answer \<open>received: true\<close>.  With the configuration
  \<open>env0\<close>, whose Stripe library refuses every signature, the answer is not that.
\<close>

theorem handleWebhook_invalid_signature_not_acknowledged:
  "received (fst (handleWebhook env0 0 ''{}'' ''invalid_signature'' store0)) \<noteq> True"
  by (simp add: handleWebhook_def fixtures given_def)

section \<open>Claim C4: a subscription-created event for an unknown customer\<close>



section \<open>Claim C5: the daily usage cap\<close>

text \<open>
  C5.  The claim: a top-tier subscriber is always allowed; a cap of zero never allows;
  otherwise after exactly \<open>k\<close> sequential record calls on one UTC day the check
  allows iff \<open>k < cap\<close>.  The first two parts hold (\<open>checkUsageLimit_pro\<close>,
  \<open>checkUsageLimit_zero\<close>), and the third holds for calls that fall on one day of the
  process's local clock (\<open>checkUsageLimit_after_records\<close>), which is the UTC day when
  the process runs in UTC (\<open>checkUsageLimit_after_records_utc\<close>).  The counter's key is
  computed with \<^verbatim>\<open>setHours(0, 0, 0, 0)\<close>, the local midnight, while the method's own
  documentation says the counters reset at midnight UTC.  In a process six hours west of
  UTC, two records at 01:00 and 02:00 UTC and a check at 07:00 UTC of the same UTC day
  fall on two local days: a community subscriber whose cap for Monte Carlo simulations
  is 2 has used the cap, and the check still allows.
\<close>

theorem checkUsageLimit_local_midnight:
  "utc_day 3600000 = utc_day 25200000 \<and> utc_day 7200000 = utc_day 25200000
   \<and> subscriptionTier user0 = community
   \<and> usageLimits community monte_carlo_simulation = Cap 2
   \<and> checkUsageLimit (env0\<lparr>timezone := - 360\<rparr>) 25200000 ''user-123'' monte_carlo_simulation
        (recordUsage_at (env0\<lparr>timezone := - 360\<rparr>) [3600000, 7200000]
           ''user-123'' monte_carlo_simulation store0) = True"
  by (simp add: utc_day_def checkUsageLimit_def recordUsage_def setHours_0_def counted_def
      findUnique_id_def fixtures)

section \<open>Claim C6: the tier granted by a completed checkout\<close>

text \<open>
  C6.  The claim: a checkout-completed event that carries a subscriber id sets the
  subscriber's tier to the tier mapped from the plan slug, and to \<open>pro\<close> whenever
  the slug is unrecognized or absent, sets the start to now and appends a ledger row with
  the session total and status \<open>succeeded\<close>.  For every plan slug that is not the name of
  a member of \<^verbatim>\<open>Object.prototype\<close> this is what the handler does
  (\<open>handleCheckoutCompleted_sets_tier\<close>).  The default is written
  \<^verbatim>\<open>(plan && this.PLAN_TIER_MAP[plan]) || 'pro'\<close> on an object literal, so for a slug
  such as \<^verbatim>\<open>constructor\<close> or \<^verbatim>\<open>toString\<close>, which the map does not have, the
  lookup finds the inherited member, the default is not taken, the value handed to the
  update is no tier, and the handler fails before anything is written: the subscriber's
  tier is not set to \<open>pro\<close> and there is no ledger row.
\<close>

theorem handleCheckoutCompleted_inherited_plan:
  assumes "given (cs_janua_user_id session)"
    and "findUnique_id (the (cs_janua_user_id session)) s = Some user"
    and "cs_plan session = Some p" and "p \<in> set Object_prototype"
  shows "map_of PLAN_TIER_MAP p = None
    \<and> checkout_tier (cs_plan session) = Inherited p
    \<and> as_SubscriptionTier (checkout_tier (cs_plan session)) = None
    \<and> (\<exists>m. handleCheckoutCompleted env now eid session s = (Inl (PrismaClientError m), s))"
  using assms checkout_tier_inherited [OF assms(4)] Object_prototype_not_mapped [OF assms(4)]
  by (simp add: handleCheckoutCompleted_def Let_def as_SubscriptionTier_def)

theorem handleCheckoutCompleted_inherited_plan_witness:
  "checkout_tier (Some ''constructor'') = Inherited ''constructor''
   \<and> isl (fst (handleCheckoutCompleted env0 0 ''evt_test123''
                   (session0\<lparr>cs_plan := Some ''constructor''\<rparr>) store0))
   \<and> snd (handleCheckoutCompleted env0 0 ''evt_test123''
             (session0\<lparr>cs_plan := Some ''constructor''\<rparr>) store0) = store0
   \<and> subscriptionTier (the (findUnique_id ''user-123'' store0)) = community"
  using handleCheckoutCompleted_inherited_plan
    [of "session0\<lparr>cs_plan := Some ''constructor''\<rparr>" store0 user0 "''constructor''" env0 0
        "''evt_test123''"]
  by (auto simp: fixtures given_def findUnique_id_def Object_prototype_def)

section \<open>Claim C7: a failed payment changes no subscriber\<close>

text \<open>
  C7, as amended.  For every subscriber found by an \<^verbatim>\<open>invoice.payment_failed\<close>
  event whose ledger row the store accepts, processing returns normally and leaves the
  user table and the usage counters as they were (the tier is not revoked, expiry and
  provider linkage are untouched).  It appends one ledger row with status \<open>failed\<close>
  whose amount is the amount due (\<open>amount_due / 100\<close>, the minor units turned into
  major units), and, besides the ledger row, it records one audit entry with action
  \<open>PAYMENT_FAILED\<close> and writes one warning to the log.
\<close>

theorem handlePaymentFailed_effects:
  assumes "findUnique_stripeCustomerId (inv_customer invoice) s = Some user"
    and "\<not> (unique_stripeEventId env \<and> list_ex (\<lambda>e. stripeEventId e = eid) (billingEvents s))"
  shows "handlePaymentFailed env eid invoice s =
    (Inr (),
     s\<lparr>billingEvents := billingEvents s @
          [\<lparr>userId = user_id user, type = payment_failed,
            amount = of_int (amount_due invoice) / 100,
            currency = currency_or_USD (inv_currency invoice),
            status = failed, stripeEventId = eid,
            metadata = invoice_metadata invoice\<rparr>],
       auditLog := auditLog s @
          [\<lparr>audit_userId = user_id user, action = ''PAYMENT_FAILED'', severity = ''high'',
            audit_metadata = [(''amount'', JNumber (of_int (amount_due invoice) / 100)),
                              (''invoiceId'', JString (inv_id invoice))]\<rparr>],
       logged := logged s @
          [(WARN, [S ''Payment failed for user '', S (user_id user), S '', amount: '',
                   N (of_int (amount_due invoice) / 100)])]\<rparr>)
    \<and> users (snd (handlePaymentFailed env eid invoice s)) = users s
    \<and> usageMetrics (snd (handlePaymentFailed env eid invoice s)) = usageMetrics s"
  using assms
  by (auto simp: handlePaymentFailed_def billingEvent_create_def logger_def audit_log_def cents_def)

theorem handlePaymentFailed_effects_witness:
  "handlePaymentFailed env0 ''evt_test123'' invoice0 store0 =
    (Inr (),
     store0\<lparr>billingEvents :=
          [\<lparr>userId = ''user-123'', type = payment_failed, amount = 1199 / 100,
            currency = ''USD'', status = failed, stripeEventId = ''evt_test123'',
            metadata = [(''invoiceId'', JString ''in_test123''),
                        (''subscriptionId'', JString ''sub_test123'')]\<rparr>],
       auditLog :=
          [\<lparr>audit_userId = ''user-123'', action = ''PAYMENT_FAILED'', severity = ''high'',
            audit_metadata = [(''amount'', JNumber (1199 / 100)),
                              (''invoiceId'', JString ''in_test123'')]\<rparr>],
       logged :=
          [(WARN, [S ''Payment failed for user '', S ''user-123'', S '', amount: '',
                   N (1199 / 100)])]\<rparr>)"
  using handlePaymentFailed_effects [of invoice0 store0 user0 env0 "''evt_test123''"]
  by (simp add: fixtures findUnique_stripeCustomerId_def currency_or_USD_def toUpperCase_def
      invoice_metadata_def)

text \<open>
  C7 as stated has the ledger row as the only change of state.  At the invoice
  \<open>invoice0\<close> for the user of \<open>store0\<close> the audit trail has changed as well.
\<close>

theorem handlePaymentFailed_writes_audit_entry:
  "auditLog (snd (handlePaymentFailed env0 ''evt_test123'' invoice0 store0)) \<noteq> auditLog store0"
  by (simp add: handlePaymentFailed_def store_ops fixtures invoice_metadata_def)

section \<open>Claim C8: no checkout for a subscriber already at the requested tier\<close>



section \<open>Claim C9: the redirect allow-list of the public checkout\<close>



section \<open>Claim C10: the SDK's parseWebhookPayload and the fallback path\<close>

text \<open>
  C10.  The claim: parseWebhookPayload throws the error "Invalid webhook signature" exactly
  when a signature and a secret are both supplied and verification fails, and skips
  verification when either is left out.  Where the runtime has Web Crypto this is what the
  code does (\<open>parseWebhookPayload_subtle_iff\<close>, \<open>parseWebhookPayload_skips\<close>).  On the
  Node fallback path it is not: there the digest and the signature go to Node's
  \<^verbatim>\<open>crypto.timingSafeEqual\<close>, which throws when the two buffers differ in length.  So for
  a runtime without \<^verbatim>\<open>crypto.subtle\<close>, a supplied secret and a supplied signature whose
  UTF-8 length is not that of the hex digest, the signature is invalid, yet what
  parseWebhookPayload throws is the RangeError of the comparison and not
  "Invalid webhook signature".
\<close>

theorem parseWebhookPayload_fallback_length_mismatch:
  assumes "\<not> subtle rt"
    and "signature \<noteq> []" and "secret \<noteq> []"
    and "length (utf8 signature) \<noteq> 2 * length (HMAC_SHA256 rt (utf8 secret) (utf8 rawBody))"
  shows "bufferToHex (HMAC_SHA256 rt (utf8 secret) (utf8 rawBody)) \<noteq> signature
    \<and> parseWebhookPayload rt rawBody (Some signature) (Some secret)
        = Inl (RangeError ''Input buffers must have the same byte length'')
    \<and> parseWebhookPayload rt rawBody (Some signature) (Some secret)
        \<noteq> Inl (Error ''Invalid webhook signature'')"
proof -
  let ?mac = "HMAC_SHA256 rt (utf8 secret) (utf8 rawBody)"
  have len: "length (utf8 (bufferToHex ?mac)) \<noteq> length (utf8 signature)"
    using assms(4) by (simp add: length_utf8_bufferToHex)
  then have neq: "bufferToHex ?mac \<noteq> signature" by auto
  have "verifyWebhookSignature rt rawBody signature secret
      = Inl (RangeError ''Input buffers must have the same byte length'')"
    using assms(1) len by (simp add: verifyWebhookSignature_def crypto_timingSafeEqual_def)
  then have "parseWebhookPayload rt rawBody (Some signature) (Some secret)
      = Inl (RangeError ''Input buffers must have the same byte length'')"
    using assms(2,3) by (simp add: parseWebhookPayload_def)
  with neq show ?thesis by simp
qed

text \<open>
  The theorem at a concrete input: a runtime without Web Crypto whose MAC has 32 bytes,
  the body \<^verbatim>\<open>{}\<close>, the secret \<^verbatim>\<open>s\<close> and the three-character signature \<^verbatim>\<open>abc\<close>.
\<close>

theorem parseWebhookPayload_fallback_length_mismatch_witness:
  "parseWebhookPayload
     \<lparr>subtle = False, HMAC_SHA256 = (\<lambda>k m. replicate 32 0), JSON_parse = (\<lambda>b. Some ())\<rparr>
     [0x7B, 0x7D] (Some [0x61, 0x62, 0x63]) (Some [0x73])
   = Inl (RangeError ''Input buffers must have the same byte length'')"
  using parseWebhookPayload_fallback_length_mismatch
    [of "\<lparr>subtle = False, HMAC_SHA256 = (\<lambda>k m. replicate 32 0), JSON_parse = (\<lambda>b. Some ())\<rparr>"
        "[0x61, 0x62, 0x63]" "[0x73]" "[0x7B, 0x7D]"]
  by simp

end
